theory Spec2Isabelle
  imports Main
begin

section \<open>Binary64 floating point\<close>

text \<open>
  The rule engine lives in \<^verbatim>\<open>mcp/lambda/lambda_function.py\<close>. All its arithmetic is on
  Python floats, which are IEEE 754 binary64 numbers. A finite double is kept as sign,
  mantissa and exponent (its value is \<open>\<bar>m\<bar> * 2^e\<close>, negated when the sign is set); the results of operations have an odd
  mantissa, or mantissa and exponent 0 for a zero, so that equal doubles of the same sign
  are equal terms. Both zeros, the infinities and NaN are values.
\<close>

datatype double = Finite bool int int | Inf bool | NaN

text \<open>\<open>2^k\<close> for an integer \<open>k\<close> (1 when \<open>k\<close> is negative).\<close>

function pow2 :: "int \<Rightarrow> int" where
  "pow2 k = (if k \<le> 0 then 1 else 2 * pow2 (k - 1))"
  by pat_completeness auto
termination
  by (relation "measure nat") auto

text \<open>
  The number of binary digits of \<open>n\<close> (Python's \<^verbatim>\<open>int.bit_length\<close>), counted 32 at
  a time while \<open>n\<close> is at least \<open>2^32\<close>.
\<close>

function bit_length :: "int \<Rightarrow> int" where
  "bit_length n =
     (if n \<le> 0 then 0
      else if 4294967296 \<le> n then 32 + bit_length (n div 4294967296)
      else 1 + bit_length (n div 2))"
  by pat_completeness auto
termination
  by (relation "measure nat") auto

text \<open>Mantissa and exponent with the factors 2 moved from the mantissa to the exponent.\<close>

function strip2 :: "int \<Rightarrow> int \<Rightarrow> int \<times> int" where
  "strip2 m e =
     (if m = 0 then (0, 0)
      else if even m then strip2 (m div 2) (e + 1)
      else (m, e))"
  by pat_completeness auto
termination
  by (relation "measure (\<lambda>(m, e). nat \<bar>m\<bar>)") auto

declare pow2.simps [simp del]
declare bit_length.simps [simp del]
declare strip2.simps [simp del]

text \<open>
  The integer nearest to \<open>n / d\<close>, a tie going to the even one: \<open>rne_pick\<close> decides
  from the quotient and the remainder.
\<close>

definition rne_pick :: "int \<Rightarrow> int \<Rightarrow> int \<Rightarrow> int" where
  "rne_pick m0 r d =
     (if 2 * r < d then m0
      else if d < 2 * r then m0 + 1
      else if even m0 then m0 else m0 + 1)"

definition rne_div :: "int \<Rightarrow> int \<Rightarrow> int" where
  "rne_div n d = rne_pick (n div d) (n mod d) d"

text \<open>
  \<open>\<lfloor>log\<^sub>2 (p / q)\<rfloor>\<close> for positive \<open>p\<close> and \<open>q\<close>: it is \<open>d\<close> or \<open>d - 1\<close> for the
  difference \<open>d\<close> of the bit lengths.
\<close>

definition log2_adjust :: "int \<Rightarrow> int \<Rightarrow> int \<Rightarrow> int" where
  "log2_adjust p q d =
     (if (if 0 \<le> d then q * pow2 d \<le> p else q \<le> p * pow2 (- d)) then d else d - 1)"

definition floor_log2_ratio :: "int \<Rightarrow> int \<Rightarrow> int" where
  "floor_log2_ratio p q = log2_adjust p q (bit_length p - bit_length q)"

text \<open>
  Rounding to nearest, ties to even: for \<open>p \<ge> 0\<close> and \<open>q > 0\<close>, \<open>round_scaled s p q k\<close>
  is the double nearest to \<open>(p / q) * 2^k\<close>, negated when \<open>s\<close>. The mantissa has 53
  bits, so the exponent \<open>qe\<close> of its last bit is 52 below \<open>\<lfloor>log\<^sub>2\<rfloor>\<close> of the value, but
  not below -1074 (there, subnormal numbers lose precision and in the end round to a zero
  of the same sign); \<open>round_at\<close> rounds the value to a multiple \<open>m\<close> of \<open>2^qe\<close>, and
  \<open>pack\<close> makes \<open>m * 2^qe\<close> a double, an infinity when it is \<open>2^1024\<close> or more.
\<close>

definition pack :: "bool \<Rightarrow> int \<Rightarrow> int \<Rightarrow> double" where
  "pack s m qe =
     (if 1024 < bit_length m + qe then Inf s
      else (case strip2 m qe of (m', e') \<Rightarrow> Finite s m' e'))"

definition round_at :: "bool \<Rightarrow> int \<Rightarrow> int \<Rightarrow> int \<Rightarrow> int \<Rightarrow> double" where
  "round_at s p q k qe =
     pack s (if qe \<le> k then rne_div (p * pow2 (k - qe)) q
             else rne_div p (q * pow2 (qe - k))) qe"

definition round_scaled :: "bool \<Rightarrow> int \<Rightarrow> int \<Rightarrow> int \<Rightarrow> double" where
  "round_scaled s p q k =
     (if p = 0 then Finite s 0 0
      else round_at s p q k (max (floor_log2_ratio p q + k - 52) (- 1074)))"

text \<open>
  The double written as the decimal literal \<open>p / q\<close> (Python reads a literal, and JSON
  a number, with correct rounding), and the double of a small integer.
\<close>

definition dbl :: "int \<Rightarrow> int \<Rightarrow> double" where
  "dbl p q = round_scaled False p q 0"

definition D :: "int \<Rightarrow> double" where
  "D i = round_scaled (i < 0) \<bar>i\<bar> 1 0"

text \<open>A finite double as an integer multiple of \<open>2^emin\<close>, for \<open>emin\<close> at most its exponent.\<close>

definition scaled_int :: "bool \<Rightarrow> int \<Rightarrow> int \<Rightarrow> int \<Rightarrow> int" where
  "scaled_int s m e emin = (if s then - 1 else 1) * \<bar>m\<bar> * pow2 (e - emin)"

definition is_nan :: "double \<Rightarrow> bool" where
  "is_nan x = (case x of NaN \<Rightarrow> True | _ \<Rightarrow> False)"

definition is_inf :: "double \<Rightarrow> bool" where
  "is_inf x = (case x of Inf _ \<Rightarrow> True | _ \<Rightarrow> False)"

definition is_finite :: "double \<Rightarrow> bool" where
  "is_finite x = (case x of Finite _ _ _ \<Rightarrow> True | _ \<Rightarrow> False)"

definition is_zero :: "double \<Rightarrow> bool" where
  "is_zero x = (case x of Finite _ m _ \<Rightarrow> m = 0 | _ \<Rightarrow> False)"

text \<open>
  The double nearest to \<open>t * 2^emin\<close>; an exact zero is negative only when both
  operands of the addition were (\<open>both_neg\<close>).
\<close>

definition round_sum :: "bool \<Rightarrow> int \<Rightarrow> int \<Rightarrow> double" where
  "round_sum both_neg t emin =
     (if t = 0 then Finite both_neg 0 0
      else round_scaled (t < 0) \<bar>t\<bar> 1 emin)"

text \<open>
  The arithmetic of the hardware, written with the usual symbols: \<open>+\<close>, \<open>-\<close>, \<open>*\<close>,
  \<open>/\<close> round their exact result; \<open><\<close> and \<open>\<le>\<close> are false when an operand is NaN.
  None of the laws of real arithmetic is assumed for them. \<open>x / y\<close> is the IEEE
  quotient; that Python raises for a zero divisor is \<open>py_div\<close> below.
\<close>

instantiation double :: "{zero, one, uminus, plus, minus, times, inverse, ord}"
begin

definition zero_double :: double where
  "zero_double = Finite False 0 0"

definition one_double :: double where
  "one_double = Finite False 1 0"

definition uminus_double :: "double \<Rightarrow> double" where
  "uminus_double x =
     (case x of Finite s m e \<Rightarrow> Finite (\<not> s) m e | Inf s \<Rightarrow> Inf (\<not> s) | NaN \<Rightarrow> NaN)"

definition plus_double :: "double \<Rightarrow> double \<Rightarrow> double" where
  "plus_double x y =
     (case x of
        NaN \<Rightarrow> NaN
      | Inf s \<Rightarrow> (case y of NaN \<Rightarrow> NaN
                           | Inf t \<Rightarrow> if s = t then Inf s else NaN
                           | Finite _ _ _ \<Rightarrow> Inf s)
      | Finite s1 m1 e1 \<Rightarrow>
          (case y of
             NaN \<Rightarrow> NaN
           | Inf t \<Rightarrow> Inf t
           | Finite s2 m2 e2 \<Rightarrow>
               round_sum (s1 \<and> s2)
                 (scaled_int s1 m1 e1 (min e1 e2) + scaled_int s2 m2 e2 (min e1 e2))
                 (min e1 e2)))"

definition minus_double :: "double \<Rightarrow> double \<Rightarrow> double" where
  "minus_double x y = x + (- y)"

definition times_double :: "double \<Rightarrow> double \<Rightarrow> double" where
  "times_double x y =
     (case x of
        NaN \<Rightarrow> NaN
      | Inf s \<Rightarrow> (case y of NaN \<Rightarrow> NaN
                           | Inf t \<Rightarrow> Inf (s \<noteq> t)
                           | Finite t m _ \<Rightarrow> if m = 0 then NaN else Inf (s \<noteq> t))
      | Finite s1 m1 e1 \<Rightarrow>
          (case y of
             NaN \<Rightarrow> NaN
           | Inf t \<Rightarrow> if m1 = 0 then NaN else Inf (s1 \<noteq> t)
           | Finite s2 m2 e2 \<Rightarrow>
               round_scaled (s1 \<noteq> s2) (\<bar>m1\<bar> * \<bar>m2\<bar>) 1 (e1 + e2)))"

definition divide_double :: "double \<Rightarrow> double \<Rightarrow> double" where
  "divide_double x y =
     (case x of
        NaN \<Rightarrow> NaN
      | Inf s \<Rightarrow> (case y of NaN \<Rightarrow> NaN
                           | Inf _ \<Rightarrow> NaN
                           | Finite t _ _ \<Rightarrow> Inf (s \<noteq> t))
      | Finite s1 m1 e1 \<Rightarrow>
          (case y of
             NaN \<Rightarrow> NaN
           | Inf t \<Rightarrow> Finite (s1 \<noteq> t) 0 0
           | Finite s2 m2 e2 \<Rightarrow>
               if m2 = 0 then (if m1 = 0 then NaN else Inf (s1 \<noteq> s2))
               else round_scaled (s1 \<noteq> s2) \<bar>m1\<bar> \<bar>m2\<bar> (e1 - e2)))"

definition inverse_double :: "double \<Rightarrow> double" where
  "inverse_double x = divide (Finite False 1 0) x"

definition less_double :: "double \<Rightarrow> double \<Rightarrow> bool" where
  "less_double x y =
     (case x of
        NaN \<Rightarrow> False
      | Inf s \<Rightarrow> (case y of NaN \<Rightarrow> False
                           | Inf t \<Rightarrow> s \<and> \<not> t
                           | Finite _ _ _ \<Rightarrow> s)
      | Finite s1 m1 e1 \<Rightarrow>
          (case y of
             NaN \<Rightarrow> False
           | Inf t \<Rightarrow> \<not> t
           | Finite s2 m2 e2 \<Rightarrow>
               scaled_int s1 m1 e1 (min e1 e2) < scaled_int s2 m2 e2 (min e1 e2)))"

definition less_eq_double :: "double \<Rightarrow> double \<Rightarrow> bool" where
  "less_eq_double x y =
     (case x of
        NaN \<Rightarrow> False
      | Inf s \<Rightarrow> (case y of NaN \<Rightarrow> False
                           | Inf t \<Rightarrow> s \<or> \<not> t
                           | Finite _ _ _ \<Rightarrow> s)
      | Finite s1 m1 e1 \<Rightarrow>
          (case y of
             NaN \<Rightarrow> False
           | Inf t \<Rightarrow> \<not> t
           | Finite s2 m2 e2 \<Rightarrow>
               scaled_int s1 m1 e1 (min e1 e2) \<le> scaled_int s2 m2 e2 (min e1 e2)))"

instance ..

end

text \<open>
  Python's \<^verbatim>\<open>x == y\<close> on floats: the two zeros are equal and NaN equals nothing. (The
  equality \<open>=\<close> of the logic tells the zeros apart.)
\<close>

definition fl_eq :: "double \<Rightarrow> double \<Rightarrow> bool" where
  "fl_eq x y = (x \<le> y \<and> y \<le> x)"

text \<open>
  \<^verbatim>\<open>round(x, 2)\<close>: the decimal with two places nearest to the exact value of \<open>x\<close> (a
  tie going to the even neighbour), read back as a double. NaN and the infinities are
  returned as they are, and a zero result keeps the sign of \<open>x\<close>.
\<close>

definition py_round2 :: "double \<Rightarrow> double" where
  "py_round2 x =
     (case x of
        Finite s m e \<Rightarrow>
          round_scaled s
            (if 0 \<le> e then \<bar>m\<bar> * pow2 e * 100
             else rne_div (\<bar>m\<bar> * 100) (pow2 (- e)))
            100 0
      | _ \<Rightarrow> x)"

text \<open>\<^verbatim>\<open>max(a, b)\<close>: Python keeps the first argument unless the second is greater.\<close>

definition py_max :: "double \<Rightarrow> double \<Rightarrow> double" where
  "py_max a b = (if a < b then b else a)"

section \<open>Python values, exceptions and conversions\<close>

text \<open>
  Each calculator receives the Lambda event (a decoded JSON document) and reads its
  arguments with \<^verbatim>\<open>float(event.get(key, default))\<close> or
  \<^verbatim>\<open>int(event.get(key, default))\<close>. Python values are a datatype; a dict is an
  association list read with \<open>map_of\<close>. What Python raises is a value of \<open>pyexn\<close> on
  the left of a sum, so that every \<^verbatim>\<open>try/except\<close> of the source is a \<open>case\<close> in
  the model.
\<close>

datatype pyval =
    VNone
  | VBool bool
  | VInt int
  | VFloat double
  | VStr string
  | VList "pyval list"
  | VDict "(string \<times> pyval) list"

datatype pyexn =
    TypeError | ValueError | ZeroDivisionError | OverflowError | AttributeError | IndexError

text \<open>
  What the model takes from outside the repository: Python's parsers of a string as a
  float and as an int (\<open>None\<close> is Python's \<^verbatim>\<open>ValueError\<close>), and the C library's
  \<^verbatim>\<open>pow\<close>, whose rounding the language does not fix, with the \<^verbatim>\<open>errno\<close> it leaves.
\<close>

datatype c_errno = ENone | ERANGE | EDOM

record pyenv =
  str_to_float :: "string \<Rightarrow> double option"
  str_to_int :: "string \<Rightarrow> int option"
  libm_pow :: "double \<Rightarrow> double \<Rightarrow> double \<times> c_errno"

definition bindE :: "pyexn + 'a \<Rightarrow> ('a \<Rightarrow> pyexn + 'b) \<Rightarrow> pyexn + 'b" where
  "bindE m f = (case m of Inl e \<Rightarrow> Inl e | Inr x \<Rightarrow> f x)"

text \<open>\<^verbatim>\<open>obj.get(key, default)\<close>: only a dict has the method.\<close>

definition py_get :: "pyval \<Rightarrow> string \<Rightarrow> pyval \<Rightarrow> pyexn + pyval" where
  "py_get obj key dflt =
     (case obj of
        VDict kvs \<Rightarrow> (case map_of kvs key of None \<Rightarrow> Inr dflt | Some v \<Rightarrow> Inr v)
      | _ \<Rightarrow> Inl AttributeError)"

text \<open>
  An int as a float, as in \<^verbatim>\<open>float(n)\<close> and in arithmetic that mixes the two:
  rounded to nearest, and \<^verbatim>\<open>OverflowError\<close> when the int is beyond the doubles.
\<close>

definition int_to_double :: "int \<Rightarrow> pyexn + double" where
  "int_to_double i = (case D i of Inf _ \<Rightarrow> Inl OverflowError | d \<Rightarrow> Inr d)"

text \<open>\<^verbatim>\<open>float(v)\<close>.\<close>

definition py_float :: "pyenv \<Rightarrow> pyval \<Rightarrow> pyexn + double" where
  "py_float E v =
     (case v of
        VFloat x \<Rightarrow> Inr x
      | VInt i \<Rightarrow> int_to_double i
      | VBool b \<Rightarrow> Inr (if b then 1 else 0)
      | VStr s \<Rightarrow> (case str_to_float E s of None \<Rightarrow> Inl ValueError | Some x \<Rightarrow> Inr x)
      | _ \<Rightarrow> Inl TypeError)"

text \<open>
  \<^verbatim>\<open>int(v)\<close>: a float is truncated towards zero; NaN raises \<^verbatim>\<open>ValueError\<close> and an
  infinity \<^verbatim>\<open>OverflowError\<close>.
\<close>

definition py_int :: "pyenv \<Rightarrow> pyval \<Rightarrow> pyexn + int" where
  "py_int E v =
     (case v of
        VInt i \<Rightarrow> Inr i
      | VFloat x \<Rightarrow>
          (case x of
             NaN \<Rightarrow> Inl ValueError
           | Inf _ \<Rightarrow> Inl OverflowError
           | Finite s m e \<Rightarrow>
               Inr ((if s then - 1 else 1) *
                    (if 0 \<le> e then \<bar>m\<bar> * pow2 e else \<bar>m\<bar> div pow2 (- e))))
      | VBool b \<Rightarrow> Inr (if b then 1 else 0)
      | VStr s \<Rightarrow> (case str_to_int E s of None \<Rightarrow> Inl ValueError | Some i \<Rightarrow> Inr i)
      | _ \<Rightarrow> Inl TypeError)"

text \<open>\<^verbatim>\<open>float(event.get(key, default))\<close> and \<^verbatim>\<open>int(event.get(key, default))\<close>.\<close>

definition get_float :: "pyenv \<Rightarrow> pyval \<Rightarrow> string \<Rightarrow> pyval \<Rightarrow> pyexn + double" where
  "get_float E event key dflt = bindE (py_get event key dflt) (py_float E)"

definition get_int :: "pyenv \<Rightarrow> pyval \<Rightarrow> string \<Rightarrow> pyval \<Rightarrow> pyexn + int" where
  "get_int E event key dflt = bindE (py_get event key dflt) (py_int E)"

text \<open>
  \<^verbatim>\<open>a / b\<close> on floats raises when the divisor is a zero. Where the source divides by
  a non-zero literal (\<^verbatim>\<open>/ 12\<close>, \<^verbatim>\<open>/ 100\<close>) the model writes \<open>/\<close>.
\<close>

definition py_div :: "double \<Rightarrow> double \<Rightarrow> pyexn + double" where
  "py_div a b = (if fl_eq b 0 then Inl ZeroDivisionError else Inr (a / b))"

text \<open>
  \<^verbatim>\<open>x ** n\<close> for a float \<open>x\<close> and an int \<open>n\<close>, after \<^verbatim>\<open>float_pow\<close> of CPython: the
  exponent is made a float \<open>w\<close> (which is then an integer, never NaN or infinite); the cases of a zero exponent, a NaN, infinite or zero
  base and a base of 1 are decided without the C library; otherwise the result is the
  library's \<^verbatim>\<open>pow\<close> of the absolute value of the base, negated for a negative base
  and an odd exponent. A result that is infinite, or an \<^verbatim>\<open>errno\<close> of \<^verbatim>\<open>ERANGE\<close>
  with a result that is not zero, raises \<^verbatim>\<open>OverflowError\<close>.
\<close>

definition is_odd_integer :: "double \<Rightarrow> bool" where
  "is_odd_integer w = (case w of Finite _ m e \<Rightarrow> odd m \<and> e = 0 | _ \<Rightarrow> False)"

definition adjust_erange :: "double \<Rightarrow> c_errno \<Rightarrow> c_errno" where
  "adjust_erange ix err =
     (if err = ENone then (if is_inf ix then ERANGE else ENone)
      else if err = ERANGE \<and> fl_eq ix 0 then ENone
      else err)"

definition pow_result :: "bool \<Rightarrow> double \<Rightarrow> c_errno \<Rightarrow> pyexn + double" where
  "pow_result negate_result ix err =
     (if err = ENone then Inr (if negate_result then - ix else ix)
      else if err = ERANGE then Inl OverflowError
      else Inl ValueError)"

definition float_pow :: "pyenv \<Rightarrow> double \<Rightarrow> double \<Rightarrow> pyexn + double" where
  "float_pow E x w =
     (if fl_eq w 0 then Inr 1
      else if is_nan x then Inr x
      else if is_inf x then
        Inr (if 0 < w then (if is_odd_integer w then x else Inf False)
             else (if is_odd_integer w \<and> x < 0 then Finite True 0 0 else 0))
      else if fl_eq x 0 then
        (if w < 0 then Inl ZeroDivisionError
         else Inr (if is_odd_integer w then x else 0))
      else if fl_eq (if x < 0 then - x else x) 1
        then Inr (if x < 0 \<and> is_odd_integer w then - 1 else 1)
      else
        (case libm_pow E (if x < 0 then - x else x) w of
           (ix, err) \<Rightarrow> pow_result (x < 0 \<and> is_odd_integer w) ix (adjust_erange ix err)))"

definition py_pow :: "pyenv \<Rightarrow> double \<Rightarrow> int \<Rightarrow> pyexn + double" where
  "py_pow E x n = bindE (int_to_double n) (float_pow E x)"

text \<open>
  An f-string is kept as the list of its parts: the literal text, and each interpolated
  value with the format the source gives it.
\<close>

datatype fpart =
    Lit string
  | FmtFloat double
  | FmtInt int
  | FmtMoney double
  | FmtExn pyexn

type_synonym fstring = "fpart list"

text \<open>
  What a calculator returns: the dict with the single key \<^verbatim>\<open>error\<close>, or the dict of
  its result fields.
\<close>

datatype 'a calc_result = ErrorResult fstring | Success 'a

text \<open>The result fields of a calculator's return value, when it is not an error.\<close>

definition success_of :: "'a calc_result \<Rightarrow> 'a option" where
  "success_of res = (case res of Success r \<Rightarrow> Some r | ErrorResult _ \<Rightarrow> None)"

section \<open>GDS/TDS calculator\<close>

record gds_tds_result =
  gds_ratio :: double
  tds_ratio :: double
  gds_limit :: int
  tds_limit :: int
  gds_pass :: bool
  tds_pass :: bool
  overall_pass :: bool
  monthly_income :: double
  gds_costs :: double
  tds_costs :: double
  recommendation :: fstring

text \<open>
  The body of the \<^verbatim>\<open>try\<close> block of \<^verbatim>\<open>calculate_gds_tds\<close>. The literal \<^verbatim>\<open>0.5\<close> is
  \<open>dbl 5 10\<close>; the ints 12, 100, 39 and 44 meet floats and are \<open>D 12\<close>, \<open>D 100\<close>,
  \<open>D 39\<close> and \<open>D 44\<close>.
\<close>

definition calculate_gds_tds_try :: "pyenv \<Rightarrow> pyval \<Rightarrow> pyexn + gds_tds_result calc_result" where
  "calculate_gds_tds_try E event =
     bindE (get_float E event ''gross_annual_income'' (VInt 0)) (\<lambda>gross_income.
     bindE (get_float E event ''monthly_mortgage_payment'' (VInt 0)) (\<lambda>mortgage_payment.
     bindE (get_float E event ''monthly_property_taxes'' (VInt 0)) (\<lambda>property_taxes.
     bindE (get_float E event ''monthly_heating'' (VInt 0)) (\<lambda>heating.
     bindE (get_float E event ''monthly_condo_fees'' (VInt 0)) (\<lambda>condo_fees.
     bindE (get_float E event ''monthly_other_debts'' (VInt 0)) (\<lambda>other_debts.
       if fl_eq gross_income 0
       then Inr (ErrorResult [Lit ''Gross annual income is required''])
       else
         let monthly_income_v = gross_income / D 12;
             gds_costs_v = mortgage_payment + property_taxes + heating + (dbl 5 10 * condo_fees) in
         bindE (py_div gds_costs_v monthly_income_v) (\<lambda>q1.
         let gds_ratio_v = q1 * D 100;
             tds_costs_v = gds_costs_v + other_debts in
         bindE (py_div tds_costs_v monthly_income_v) (\<lambda>q2.
         let tds_ratio_v = q2 * D 100;
             gds_pass_v = (gds_ratio_v \<le> D 39);
             tds_pass_v = (tds_ratio_v \<le> D 44)
         in Inr (Success
              \<lparr> gds_ratio = py_round2 gds_ratio_v,
                tds_ratio = py_round2 tds_ratio_v,
                gds_limit = 39,
                tds_limit = 44,
                gds_pass = gds_pass_v,
                tds_pass = tds_pass_v,
                overall_pass = (gds_pass_v \<and> tds_pass_v),
                monthly_income = py_round2 monthly_income_v,
                gds_costs = py_round2 gds_costs_v,
                tds_costs = py_round2 tds_costs_v,
                recommendation =
                  (if gds_pass_v \<and> tds_pass_v
                   then [Lit ''Approved - Debt ratios within CMHC limits'']
                   else [Lit ''Denied - Debt ratios exceed CMHC limits'']) \<rparr>)))))))))"

definition calculate_gds_tds :: "pyenv \<Rightarrow> pyval \<Rightarrow> gds_tds_result calc_result" where
  "calculate_gds_tds E event =
     (case calculate_gds_tds_try E event of
        Inl e \<Rightarrow> ErrorResult [Lit ''GDS/TDS calculation failed: '', FmtExn e]
      | Inr r \<Rightarrow> r)"

section \<open>OSFI B-20 stress test calculator\<close>

record stress_result =
  contract_rate :: double
  qualifying_rate :: double
  stress_test_applied :: bool
  qualifying_payment :: double
  actual_payment :: double
  additional_qualifying_amount :: double
  loan_amount :: double
  amortization_years :: int
  message :: fstring

text \<open>
  The source writes the payment computation out twice (for the qualifying rate and for
  the contract rate) with the same text; \<open>payment\<close> is that text:
  \<^verbatim>\<open>
  if rate > 0:
      p = loan_amount * (rate * (1 + rate) ** num_payments) / ((1 + rate) ** num_payments - 1)
  else:
      p = loan_amount / num_payments
  \<close>
  \<^verbatim>\<open>num_payments\<close> is an int: \<^verbatim>\<open>loan_amount / num_payments\<close> makes it a float first.
\<close>

definition payment :: "pyenv \<Rightarrow> double \<Rightarrow> double \<Rightarrow> int \<Rightarrow> pyexn + double" where
  "payment E loan rate num_payments =
     (if 0 < rate then
        bindE (py_pow E (1 + rate) num_payments) (\<lambda>pw1.
        bindE (py_pow E (1 + rate) num_payments) (\<lambda>pw2.
          py_div (loan * (rate * pw1)) (pw2 - 1)))
      else bindE (int_to_double num_payments) (\<lambda>w. py_div loan w))"

definition osfi_b20_stress_test_try :: "pyenv \<Rightarrow> pyval \<Rightarrow> pyexn + stress_result calc_result" where
  "osfi_b20_stress_test_try E event =
     bindE (get_float E event ''purchase_price'' (VInt 0)) (\<lambda>purchase_price.
     bindE (get_float E event ''down_payment'' (VInt 0)) (\<lambda>down_payment.
     bindE (get_float E event ''contract_interest_rate'' (VFloat (dbl 35 10))) (\<lambda>contract_rate_v.
     bindE (get_int E event ''amortization_years'' (VInt 25)) (\<lambda>amortization.
       if fl_eq purchase_price 0 then Inr (ErrorResult [Lit ''Purchase price is required''])
       else
         let loan_amount_v = purchase_price - down_payment;
             stress_rate_1 = contract_rate_v + dbl 20 10;
             stress_rate_2 = dbl 525 100;
             qualifying_rate_v = py_max stress_rate_1 stress_rate_2;
             monthly_rate = qualifying_rate_v / D 100 / D 12;
             num_payments = amortization * 12 in
         bindE (payment E loan_amount_v monthly_rate num_payments) (\<lambda>qualifying_payment_v.
         let contract_monthly_rate = contract_rate_v / D 100 / D 12 in
         bindE (payment E loan_amount_v contract_monthly_rate num_payments) (\<lambda>actual_payment_v.
         Inr (Success
              \<lparr> contract_rate = contract_rate_v,
                qualifying_rate = qualifying_rate_v,
                stress_test_applied = (contract_rate_v < qualifying_rate_v),
                qualifying_payment = py_round2 qualifying_payment_v,
                actual_payment = py_round2 actual_payment_v,
                additional_qualifying_amount = py_round2 (qualifying_payment_v - actual_payment_v),
                loan_amount = py_round2 loan_amount_v,
                amortization_years = amortization,
                message =
                  [Lit ''Must qualify at '', FmtFloat qualifying_rate_v,
                   Lit ''% per OSFI B-20 stress test (higher of contract rate + 2% or 5.25%)''] \<rparr>)))))))"

definition osfi_b20_stress_test :: "pyenv \<Rightarrow> pyval \<Rightarrow> stress_result calc_result" where
  "osfi_b20_stress_test E event =
     (case osfi_b20_stress_test_try E event of
        Inl e \<Rightarrow> ErrorResult [Lit ''Stress test calculation failed: '', FmtExn e]
      | Inr r \<Rightarrow> r)"

section \<open>Down payment and insurance calculator\<close>

record down_payment_result =
  purchase_price :: double
  min_down_payment :: double
  actual_down_payment :: double
  down_payment_pct :: double
  sufficient :: bool
  cmhc_insurance_required :: bool
  cmhc_premium :: double
  cmhc_rate_pct :: double
  total_loan_amount :: double
  shortfall :: double
  dp_recommendation :: fstring

text \<open>
  The literals \<^verbatim>\<open>0.05\<close>, \<^verbatim>\<open>0.10\<close>, \<^verbatim>\<open>0.20\<close>, \<^verbatim>\<open>2.80\<close>, \<^verbatim>\<open>3.10\<close> and \<^verbatim>\<open>4.00\<close>
  are the doubles nearest to them. Where the source has the int 0 for a rate or a premium,
  the model has the float 0, which the arithmetic after it makes of it.
\<close>

definition calculate_down_payment_try ::
  "pyenv \<Rightarrow> pyval \<Rightarrow> pyexn + down_payment_result calc_result" where
  "calculate_down_payment_try E event =
     bindE (get_float E event ''purchase_price'' (VInt 0)) (\<lambda>price.
     bindE (get_float E event ''proposed_down_payment'' (VInt 0)) (\<lambda>actual.
       if fl_eq price 0 then Inr (ErrorResult [Lit ''Purchase price is required''])
       else
         let min_dp =
               (if price \<le> D 500000 then price * dbl 5 100
                else if price \<le> D 1000000
                  then (D 500000 * dbl 5 100) + ((price - D 500000) * dbl 10 100)
                else price * dbl 20 100) in
         bindE (py_div actual price) (\<lambda>q.
         let pct = q * D 100;
             cmhc_required = (pct < D 20);
             (premium, rate) =
               (if cmhc_required \<and> price < D 1000000 then
                  let cmhc_rate =
                        (if D 20 \<le> pct then 0
                         else if D 15 \<le> pct then dbl 280 100
                         else if D 10 \<le> pct then dbl 310 100
                         else if D 5 \<le> pct then dbl 400 100
                         else 0)
                  in ((price - actual) * (cmhc_rate / D 100), cmhc_rate)
                else (0, 0));
             sufficient_v = (min_dp \<le> actual)
         in Inr (Success
              \<lparr> purchase_price = py_round2 price,
                min_down_payment = py_round2 min_dp,
                actual_down_payment = py_round2 actual,
                down_payment_pct = py_round2 pct,
                sufficient = sufficient_v,
                cmhc_insurance_required = cmhc_required,
                cmhc_premium = py_round2 premium,
                cmhc_rate_pct = rate,
                total_loan_amount = py_round2 ((price - actual) + premium),
                shortfall = py_round2 (py_max 0 (min_dp - actual)),
                dp_recommendation =
                  (if sufficient_v then [Lit ''Approved - Down payment sufficient'']
                   else [Lit ''Need $'', FmtMoney (py_round2 (min_dp - actual)),
                         Lit '' more for minimum down payment'']) \<rparr>))))"

definition calculate_down_payment :: "pyenv \<Rightarrow> pyval \<Rightarrow> down_payment_result calc_result" where
  "calculate_down_payment E event =
     (case calculate_down_payment_try E event of
        Inl e \<Rightarrow> ErrorResult [Lit ''Down payment calculation failed: '', FmtExn e]
      | Inr r \<Rightarrow> r)"

section \<open>Credit threshold calculator\<close>

record credit_result =
  credit_score :: int
  category :: string
  min_required_score :: int
  mortgage_type :: string
  approved :: bool
  points_above_minimum :: int
  credit_recommendation :: fstring

definition check_credit_threshold_try :: "pyenv \<Rightarrow> pyval \<Rightarrow> pyexn + credit_result calc_result" where
  "check_credit_threshold_try E event =
     bindE (get_int E event ''credit_score'' (VInt 0)) (\<lambda>score.
     bindE (get_float E event ''down_payment_percentage'' (VInt 5)) (\<lambda>pct.
       if score = 0 then Inr (ErrorResult [Lit ''Credit score is required''])
       else
         let (min_score, mtype) =
               (if D 20 \<le> pct then (650, ''Conventional'') else (600, ''CMHC Insured''));
             approved_v = (score \<ge> min_score);
             category_v =
               (if score \<ge> 800 then ''Excellent''
                else if score \<ge> 720 then ''Very Good''
                else if score \<ge> 650 then ''Good''
                else if score \<ge> 600 then ''Fair''
                else ''Poor'')
         in Inr (Success
              \<lparr> credit_score = score,
                category = category_v,
                min_required_score = min_score,
                mortgage_type = mtype,
                approved = approved_v,
                points_above_minimum = score - min_score,
                credit_recommendation =
                  (if approved_v then [Lit ''Approved - Credit score meets requirements'']
                   else [Lit ''Denied - Credit score too low (need '', FmtInt min_score,
                         Lit ''+ for '', Lit mtype, Lit '' mortgage)'']) \<rparr>)))"

definition check_credit_threshold :: "pyenv \<Rightarrow> pyval \<Rightarrow> credit_result calc_result" where
  "check_credit_threshold E event =
     (case check_credit_threshold_try E event of
        Inl e \<Rightarrow> ErrorResult [Lit ''Credit check failed: '', FmtExn e]
      | Inr r \<Rightarrow> r)"

section \<open>Dispatcher\<close>

text \<open>
  \<^verbatim>\<open>placeholder_tool\<close> has no \<^verbatim>\<open>try\<close>: on an event that is not a dict its
  \<^verbatim>\<open>event.get\<close> raises into the handler.
\<close>

record placeholder_result =
  placeholder_message :: string
  string_param :: pyval
  int_param :: pyval
  float_array_param :: pyval
  event_args_received :: pyval

definition placeholder_tool :: "pyval \<Rightarrow> pyexn + placeholder_result" where
  "placeholder_tool event =
     bindE (py_get event ''string_param'' VNone) (\<lambda>sp.
     bindE (py_get event ''int_param'' VNone) (\<lambda>ip.
     bindE (py_get event ''float_array_param'' VNone) (\<lambda>fp.
       Inr \<lparr> placeholder_message = ''Placeholder tool executed.'',
             string_param = sp,
             int_param = ip,
             float_array_param = fp,
             event_args_received = event \<rparr>)))"

datatype tool_result =
    RGdsTds "gds_tds_result calc_result"
  | RStress "stress_result calc_result"
  | RDownPayment "down_payment_result calc_result"
  | RCredit "credit_result calc_result"
  | RPlaceholder placeholder_result

text \<open>
  The dict handed to \<^verbatim>\<open>json.dumps\<close>: it has one key, \<^verbatim>\<open>result\<close>, \<^verbatim>\<open>error\<close> or
  \<^verbatim>\<open>system_error\<close>. The envelope keeps the dict; its serialisation is not modelled.
\<close>

datatype body_t =
    BResult tool_result
  | BError string
  | BSystemError pyexn

record envelope =
  statusCode :: int
  body :: body_t

definition response :: "int \<Rightarrow> body_t \<Rightarrow> envelope" where
  "response status_code b = \<lparr> statusCode = status_code, body = b \<rparr>"

text \<open>
  The Lambda context: \<^verbatim>\<open>context.client_context\<close> may be \<^verbatim>\<open>None\<close>, and
  \<^verbatim>\<open>client_context.custom\<close> is a Python value (a dict when the gateway sets it).
\<close>

record client_context_t =
  custom :: pyval

record context_t =
  client_context :: "client_context_t option"

text \<open>Truth value of a Python value, as \<^verbatim>\<open>if v\<close> and \<^verbatim>\<open>v and ...\<close> test it.\<close>

definition py_truthy :: "pyval \<Rightarrow> bool" where
  "py_truthy v =
     (case v of
        VNone \<Rightarrow> False
      | VBool b \<Rightarrow> b
      | VInt i \<Rightarrow> i \<noteq> 0
      | VFloat x \<Rightarrow> \<not> fl_eq x 0
      | VStr s \<Rightarrow> s \<noteq> []
      | VList xs \<Rightarrow> xs \<noteq> []
      | VDict kvs \<Rightarrow> kvs \<noteq> [])"

text \<open>
  \<open>after_first sep s\<close> is what follows the first occurrence of \<open>sep\<close> in \<open>s\<close>, that
  is \<^verbatim>\<open>s.split(sep, 1)[1]\<close>; \<open>None\<close> when \<open>sep\<close> does not occur.
\<close>

fun after_first :: "string \<Rightarrow> string \<Rightarrow> string option" where
  "after_first sep [] = (if sep = [] then Some [] else None)"
| "after_first sep (c # cs) =
     (if take (length sep) (c # cs) = sep then Some (drop (length sep) (c # cs))
      else after_first sep cs)"

text \<open>\<^verbatim>\<open>sep in v\<close> for a string \<open>sep\<close>.\<close>

definition py_contains :: "string \<Rightarrow> pyval \<Rightarrow> pyexn + bool" where
  "py_contains sep v =
     (case v of
        VStr s \<Rightarrow> Inr (after_first sep s \<noteq> None)
      | VList xs \<Rightarrow> Inr (VStr sep \<in> set xs)
      | VDict kvs \<Rightarrow> Inr (sep \<in> fst ` set kvs)
      | _ \<Rightarrow> Inl TypeError)"

text \<open>\<^verbatim>\<open>v.split(sep, 1)[1]\<close>: only a string has \<^verbatim>\<open>split\<close>.\<close>

definition py_split_snd :: "string \<Rightarrow> pyval \<Rightarrow> pyexn + string" where
  "py_split_snd sep v =
     (case v of
        VStr s \<Rightarrow> (case after_first sep s of None \<Rightarrow> Inl IndexError | Some t \<Rightarrow> Inr t)
      | _ \<Rightarrow> Inl AttributeError)"

text \<open>
  Lines 23 to 29 of the handler: the tool name resolved from the gateway's qualified
  name, \<open>None\<close> when there is none.
\<close>

definition resolve_tool_name :: "context_t \<Rightarrow> pyexn + string option" where
  "resolve_tool_name context =
     (case client_context context of
        None \<Rightarrow> Inl AttributeError
      | Some cc \<Rightarrow>
          bindE (py_get (custom cc) ''bedrockAgentCoreToolName'' VNone) (\<lambda>extended_name.
          bindE (if py_truthy extended_name then py_contains ''___'' extended_name
                 else Inr False) (\<lambda>has_sep.
            if has_sep then bindE (py_split_snd ''___'' extended_name) (\<lambda>t. Inr (Some t))
            else Inr None)))"

definition unknown_tool :: "string \<Rightarrow> string" where
  "unknown_tool tool_name = ''Unknown tool '' @ [CHR 0x27] @ tool_name @ [CHR 0x27]"

definition lambda_handler_try :: "pyenv \<Rightarrow> pyval \<Rightarrow> context_t \<Rightarrow> pyexn + envelope" where
  "lambda_handler_try E event context =
     bindE (resolve_tool_name context) (\<lambda>resolved.
       case resolved of
         None \<Rightarrow> Inr (response 400 (BError ''Missing tool name''))
       | Some tool_name \<Rightarrow>
           if tool_name = [] then Inr (response 400 (BError ''Missing tool name''))
           else if tool_name = ''calculate_gds_tds'' then
             Inr (response 200 (BResult (RGdsTds (calculate_gds_tds E event))))
           else if tool_name = ''osfi_b20_stress_test'' then
             Inr (response 200 (BResult (RStress (osfi_b20_stress_test E event))))
           else if tool_name = ''calculate_down_payment'' then
             Inr (response 200 (BResult (RDownPayment (calculate_down_payment E event))))
           else if tool_name = ''check_credit_threshold'' then
             Inr (response 200 (BResult (RCredit (check_credit_threshold E event))))
           else if tool_name = ''placeholder_tool'' then
             bindE (placeholder_tool event) (\<lambda>result.
               Inr (response 200 (BResult (RPlaceholder result))))
           else Inr (response 400 (BError (unknown_tool tool_name))))"

definition lambda_handler :: "pyenv \<Rightarrow> pyval \<Rightarrow> context_t \<Rightarrow> envelope" where
  "lambda_handler E event context =
     (case lambda_handler_try E event context of
        Inl e \<Rightarrow> response 500 (BSystemError e)
      | Inr r \<Rightarrow> r)"

section \<open>The specification's payment rule\<close>

text \<open>
  The specification's formula \<open>P = L r (1+r)^n / ((1+r)^n - 1)\<close>, for a power \<open>pw\<close>
  already computed, and its rule for the monthly payment: the formula, except that a rate
  of exactly 0 gives \<open>L / n\<close>. These two follow the specification's words, in the
  arithmetic of the source; \<open>payment\<close> above follows the source.
\<close>

definition spec_payment_formula :: "double \<Rightarrow> double \<Rightarrow> double \<Rightarrow> double" where
  "spec_payment_formula L r pw = L * (r * pw) / (pw - 1)"

definition spec_payment :: "pyenv \<Rightarrow> double \<Rightarrow> double \<Rightarrow> int \<Rightarrow> pyexn + double" where
  "spec_payment E L r n =
     (if fl_eq r 0 then bindE (int_to_double n) (\<lambda>w. py_div L w)
      else bindE (py_pow E (1 + r) n) (\<lambda>pw.
             if fl_eq (pw - 1) 0 then Inl ZeroDivisionError
             else Inr (spec_payment_formula L r pw)))"

section \<open>Sample environment\<close>

text \<open>
  For evaluating the calculators on concrete requests: parsers that accept no string (so
  every number is a JSON number), and a \<^verbatim>\<open>pow\<close> that rounds the exact power of a
  positive base to an integer exponent correctly.
\<close>

function ipow :: "int \<Rightarrow> int \<Rightarrow> int" where
  "ipow b i = (if i \<le> 0 then 1 else b * ipow b (i - 1))"
  by pat_completeness auto
termination
  by (relation "measure (\<lambda>(b, i). nat i)") auto

declare ipow.simps [simp del]

definition with_errno :: "double \<Rightarrow> double \<times> c_errno" where
  "with_errno r = (r, if is_inf r then ERANGE else ENone)"

definition rounded_pow :: "double \<Rightarrow> double \<Rightarrow> double \<times> c_errno" where
  "rounded_pow b w =
     (case b of
        Finite _ m e \<Rightarrow>
          (case w of
             Finite t n k \<Rightarrow>
               with_errno
                 (if t then round_scaled False 1 (ipow \<bar>m\<bar> (\<bar>n\<bar> * pow2 k)) (- (e * (\<bar>n\<bar> * pow2 k)))
                  else round_scaled False (ipow \<bar>m\<bar> (\<bar>n\<bar> * pow2 k)) 1 (e * (\<bar>n\<bar> * pow2 k)))
           | _ \<Rightarrow> (NaN, EDOM))
      | _ \<Rightarrow> (NaN, EDOM))"

definition sample_env :: pyenv where
  "sample_env = \<lparr> str_to_float = (\<lambda>_. None), str_to_int = (\<lambda>_. None),
                  libm_pow = rounded_pow \<rparr>"

section \<open>Facts about the conversions\<close>

lemma bindE_Inr [simp]: "bindE (Inr x) f = f x"
  by (simp add: bindE_def)

lemma bindE_Inl [simp]: "bindE (Inl e) f = Inl e"
  by (simp add: bindE_def)

lemma py_div_nonzero: "\<not> fl_eq b 0 \<Longrightarrow> py_div a b = Inr (a / b)"
  by (simp add: py_div_def)

lemma py_div_zero: "fl_eq b 0 \<Longrightarrow> py_div a b = Inl ZeroDivisionError"
  by (simp add: py_div_def)

section \<open>Facts about doubles\<close>

lemma pow2_pos: "0 < pow2 k"
proof (induction k rule: pow2.induct)
  case (1 k)
  show ?case
  proof (cases "k \<le> 0")
    case True
    then show ?thesis by (simp add: pow2.simps)
  next
    case False
    with "1" have "0 < pow2 (k - 1)" by simp
    with False show ?thesis by (simp add: pow2.simps [of k])
  qed
qed

lemma pow2_add:
  assumes "0 \<le> i" and "0 \<le> j"
  shows "pow2 (i + j) = pow2 i * pow2 j"
  using assms
proof (induction i rule: pow2.induct)
  case (1 k)
  show ?case
  proof (cases "k \<le> 0")
    case True
    with "1.prems" have "k = 0" by simp
    then show ?thesis by (simp add: pow2.simps [of 0])
  next
    case False
    then have k: "0 \<le> k - 1" by simp
    from False "1.prems" have kj: "\<not> k + j \<le> 0" by simp
    from "1.IH" [OF False k "1.prems"(2)]
    have ih: "pow2 (k - 1 + j) = pow2 (k - 1) * pow2 j" .
    have "pow2 (k + j) = 2 * pow2 (k + j - 1)"
      using kj by (simp add: pow2.simps [of "k + j"])
    also have "k + j - 1 = k - 1 + j" by simp
    finally show ?thesis
      using ih False by (simp add: pow2.simps [of k])
  qed
qed

lemma scaled_int_shift:
  assumes "k \<le> emin" and "emin \<le> e"
  shows "scaled_int s m e k = scaled_int s m e emin * pow2 (emin - k)"
proof -
  have "e - k = (e - emin) + (emin - k)" by simp
  then have "pow2 (e - k) = pow2 (e - emin) * pow2 (emin - k)"
    using assms pow2_add [of "e - emin" "emin - k"] by simp
  then show ?thesis
    by (simp add: scaled_int_def)
qed

lemma finite_le_at:
  assumes "k \<le> e1" and "k \<le> e2"
  shows "(Finite s1 m1 e1 \<le> Finite s2 m2 e2)
           = (scaled_int s1 m1 e1 k \<le> scaled_int s2 m2 e2 k)"
proof -
  have k: "k \<le> min e1 e2" using assms by simp
  have "scaled_int s1 m1 e1 k = scaled_int s1 m1 e1 (min e1 e2) * pow2 (min e1 e2 - k)"
    by (rule scaled_int_shift [OF k]) simp
  moreover have "scaled_int s2 m2 e2 k = scaled_int s2 m2 e2 (min e1 e2) * pow2 (min e1 e2 - k)"
    by (rule scaled_int_shift [OF k]) simp
  ultimately show ?thesis
    using pow2_pos [of "min e1 e2 - k"]
    by (simp add: less_eq_double_def)
qed

lemma finite_less_at:
  assumes "k \<le> e1" and "k \<le> e2"
  shows "(Finite s1 m1 e1 < Finite s2 m2 e2)
           = (scaled_int s1 m1 e1 k < scaled_int s2 m2 e2 k)"
proof -
  have k: "k \<le> min e1 e2" using assms by simp
  have "scaled_int s1 m1 e1 k = scaled_int s1 m1 e1 (min e1 e2) * pow2 (min e1 e2 - k)"
    by (rule scaled_int_shift [OF k]) simp
  moreover have "scaled_int s2 m2 e2 k = scaled_int s2 m2 e2 (min e1 e2) * pow2 (min e1 e2 - k)"
    by (rule scaled_int_shift [OF k]) simp
  ultimately show ?thesis
    using pow2_pos [of "min e1 e2 - k"]
    by (simp add: less_double_def)
qed

lemma double_less_not_le: "(x::double) < y \<Longrightarrow> \<not> y \<le> x"
  by (cases x; cases y) (auto simp: less_eq_double_def less_double_def min.commute)

lemma double_less_imp_le: "(x::double) < y \<Longrightarrow> x \<le> y"
  by (cases x; cases y) (auto simp: less_eq_double_def less_double_def)

lemma double_le_trans:
  assumes "(x::double) \<le> y" and "y \<le> z"
  shows "x \<le> z"
proof (cases x)
  case x: (Finite s1 m1 e1)
  show ?thesis
  proof (cases y)
    case y: (Finite s2 m2 e2)
    show ?thesis
    proof (cases z)
      case z: (Finite s3 m3 e3)
      define k where "k = min e1 (min e2 e3)"
      have k: "k \<le> e1" "k \<le> e2" "k \<le> e3"
        by (simp_all add: k_def)
      from assms(1) have "scaled_int s1 m1 e1 k \<le> scaled_int s2 m2 e2 k"
        unfolding x y finite_le_at [OF k(1,2)] .
      moreover from assms(2) have "scaled_int s2 m2 e2 k \<le> scaled_int s3 m3 e3 k"
        unfolding y z finite_le_at [OF k(2,3)] .
      ultimately have "scaled_int s1 m1 e1 k \<le> scaled_int s3 m3 e3 k"
        by (rule order_trans)
      then show ?thesis
        unfolding x z finite_le_at [OF k(1,3)] .
    next
      case (Inf t)
      with assms(2) y x show ?thesis
        by (simp add: less_eq_double_def)
    next
      case NaN
      with assms(2) y show ?thesis
        by (simp add: less_eq_double_def)
    qed
  next
    case (Inf t)
    with assms x show ?thesis
      by (cases z) (auto simp: less_eq_double_def)
  next
    case NaN
    with assms(1) x show ?thesis
      by (simp add: less_eq_double_def)
  qed
next
  case (Inf s)
  with assms show ?thesis
    by (cases y; cases z) (auto simp: less_eq_double_def)
next
  case NaN
  with assms(1) show ?thesis
    by (cases y) (simp_all add: less_eq_double_def)
qed

lemma double_less_le_trans:
  assumes "(x::double) < y" and "y \<le> z"
  shows "x < z"
proof (cases x)
  case x: (Finite s1 m1 e1)
  show ?thesis
  proof (cases y)
    case y: (Finite s2 m2 e2)
    show ?thesis
    proof (cases z)
      case z: (Finite s3 m3 e3)
      define k where "k = min e1 (min e2 e3)"
      have k: "k \<le> e1" "k \<le> e2" "k \<le> e3"
        by (simp_all add: k_def)
      from assms(1) have "scaled_int s1 m1 e1 k < scaled_int s2 m2 e2 k"
        unfolding x y finite_less_at [OF k(1,2)] .
      moreover from assms(2) have "scaled_int s2 m2 e2 k \<le> scaled_int s3 m3 e3 k"
        unfolding y z finite_le_at [OF k(2,3)] .
      ultimately have "scaled_int s1 m1 e1 k < scaled_int s3 m3 e3 k"
        by (rule less_le_trans)
      then show ?thesis
        unfolding x z finite_less_at [OF k(1,3)] .
    next
      case (Inf t)
      with assms(2) y x show ?thesis
        by (simp add: less_eq_double_def less_double_def)
    next
      case NaN
      with assms(2) y show ?thesis
        by (simp add: less_eq_double_def)
    qed
  next
    case (Inf t)
    with assms x show ?thesis
      by (cases z) (auto simp: less_eq_double_def less_double_def)
  next
    case NaN
    with assms(1) x show ?thesis
      by (simp add: less_double_def)
  qed
next
  case (Inf s)
  with assms show ?thesis
    by (cases y; cases z) (auto simp: less_eq_double_def less_double_def)
next
  case NaN
  with assms(1) show ?thesis
    by (cases y) (simp_all add: less_double_def)
qed

lemma fl_eq_zero_not_pos: "fl_eq x 0 \<Longrightarrow> \<not> 0 < x"
  using double_less_not_le [of 0 x] by (auto simp: fl_eq_def)

text \<open>The sign of a double that is at most, at least or below zero.\<close>

lemma le_zero_iff:
  "x \<le> 0 \<longleftrightarrow> (case x of Finite s m e \<Rightarrow> s \<or> m = 0 | Inf s \<Rightarrow> s | NaN \<Rightarrow> False)"
  using pow2_pos [of "case x of Finite s m e \<Rightarrow> e - min e 0 | _ \<Rightarrow> 0"]
  by (cases x)
     (auto simp: less_eq_double_def zero_double_def scaled_int_def mult_le_0_iff
        zero_le_mult_iff)

lemma zero_le_iff:
  "0 \<le> x \<longleftrightarrow> (case x of Finite s m e \<Rightarrow> \<not> s \<or> m = 0 | Inf s \<Rightarrow> \<not> s | NaN \<Rightarrow> False)"
  using pow2_pos [of "case x of Finite s m e \<Rightarrow> e - min 0 e | _ \<Rightarrow> 0"]
  by (cases x)
     (auto simp: less_eq_double_def zero_double_def scaled_int_def mult_le_0_iff
        zero_le_mult_iff)

lemma less_zero_iff:
  "x < 0 \<longleftrightarrow> (case x of Finite s m e \<Rightarrow> s \<and> m \<noteq> 0 | Inf s \<Rightarrow> s | NaN \<Rightarrow> False)"
  using pow2_pos [of "case x of Finite s m e \<Rightarrow> e - min e 0 | _ \<Rightarrow> 0"]
  by (cases x)
     (auto simp: less_double_def zero_double_def scaled_int_def mult_less_0_iff
        zero_less_mult_iff)


lemma fl_eq_zero_iff:
  "fl_eq x 0 \<longleftrightarrow> (case x of Finite s m e \<Rightarrow> m = 0 | _ \<Rightarrow> False)"
  unfolding fl_eq_def le_zero_iff zero_le_iff
  by (cases x) auto

lemma round_scaled_sign:
  "round_scaled s p q k = Inf s \<or> (\<exists>m e. round_scaled s p q k = Finite s m e)"
  by (auto simp: round_scaled_def round_at_def pack_def split: prod.splits)

lemma round_scaled_nonpos: "round_scaled True p q k \<le> 0"
  using round_scaled_sign [of True p q k] by (auto simp: le_zero_iff)

lemma round_scaled_nonneg: "0 \<le> round_scaled False p q k"
  using round_scaled_sign [of False p q k] by (auto simp: zero_le_iff)

lemma round_scaled_zero: "round_scaled s 0 q k = Finite s 0 0"
  by (simp add: round_scaled_def)

lemma double_add_nonneg:
  fixes a b :: double
  assumes "0 \<le> a" and "0 \<le> b"
  shows "0 \<le> a + b"
proof (cases a)
  case a: (Finite s1 m1 e1)
  show ?thesis
  proof (cases b)
    case b: (Finite s2 m2 e2)
    from assms a b have s: "\<not> s1 \<or> m1 = 0" "\<not> s2 \<or> m2 = 0"
      by (simp_all add: zero_le_iff)
    have p: "0 < pow2 (e1 - min e1 e2)" "0 < pow2 (e2 - min e1 e2)"
      by (rule pow2_pos)+
    from s p have n: "0 \<le> scaled_int s1 m1 e1 (min e1 e2) + scaled_int s2 m2 e2 (min e1 e2)"
      by (auto simp: scaled_int_def intro!: add_nonneg_nonneg mult_nonneg_nonneg)
    show ?thesis
      unfolding a b plus_double_def double.case round_sum_def
      using n round_scaled_nonneg by (auto simp: zero_le_iff)
  next
    case (Inf t)
    with assms a show ?thesis
      by (simp add: plus_double_def zero_le_iff)
  next
    case NaN
    with assms show ?thesis
      by (simp add: zero_le_iff)
  qed
next
  case (Inf s)
  with assms show ?thesis
    by (cases b) (auto simp: plus_double_def zero_le_iff)
next
  case NaN
  with assms show ?thesis
    by (simp add: zero_le_iff)
qed

lemma double_mult_pos_nonneg:
  assumes "mc \<noteq> 0" and "0 \<le> x"
  shows "0 \<le> Finite False mc ec * x"
proof (cases x)
  case (Finite s m e)
  with assms(2) have "\<not> s \<or> m = 0"
    by (simp add: zero_le_iff)
  then show ?thesis
    unfolding Finite times_double_def double.case
    using round_scaled_nonneg by (auto simp: round_scaled_zero zero_le_iff)
next
  case (Inf t)
  with assms show ?thesis
    by (simp add: times_double_def zero_le_iff)
next
  case NaN
  with assms show ?thesis
    by (simp add: zero_le_iff)
qed

lemma double_mult_nonpos_pos:
  assumes "mc \<noteq> 0" and "x \<le> 0"
  shows "x * Finite False mc ec \<le> 0"
proof (cases x)
  case (Finite s m e)
  with assms(2) have "s \<or> m = 0"
    by (simp add: le_zero_iff)
  then show ?thesis
    unfolding Finite times_double_def double.case
    using round_scaled_nonpos by (auto simp: round_scaled_zero le_zero_iff)
next
  case (Inf t)
  with assms show ?thesis
    by (simp add: times_double_def le_zero_iff)
next
  case NaN
  with assms show ?thesis
    by (simp add: le_zero_iff)
qed

lemma double_div_nonneg_neg:
  fixes c d :: double
  assumes "0 \<le> c" and "d < 0" and "is_finite d"
  shows "c / d \<le> 0"
proof -
  from assms(2,3) obtain m2 e2 where d: "d = Finite True m2 e2" and m2: "m2 \<noteq> 0"
    by (cases d) (auto simp: less_zero_iff is_finite_def)
  show ?thesis
  proof (cases c)
    case (Finite s m e)
    with assms(1) have "\<not> s \<or> m = 0"
      by (simp add: zero_le_iff)
    then show ?thesis
      unfolding Finite d divide_double_def double.case
      using m2 round_scaled_nonpos by (auto simp: round_scaled_zero le_zero_iff)
  next
    case (Inf t)
    with assms(1) show ?thesis
      by (simp add: d divide_double_def zero_le_iff le_zero_iff)
  next
    case NaN
    with assms(1) show ?thesis
      by (simp add: zero_le_iff)
  qed
qed

lemma rne_div_zero: "rne_div 0 d = (if 0 < d then 0 else if d < 0 then 1 else 0)"
  by (simp add: rne_div_def rne_pick_def)

lemma py_round2_nonpos:
  assumes "x \<le> 0"
  shows "py_round2 x \<le> 0"
proof (cases x)
  case (Finite s m e)
  with assms have "s \<or> m = 0"
    by (simp add: le_zero_iff)
  then show ?thesis
    unfolding Finite py_round2_def double.case
    using round_scaled_nonpos pow2_pos [of "- e"]
    by (auto simp: round_scaled_zero le_zero_iff rne_div_zero)
next
  case (Inf t)
  with assms show ?thesis
    by (simp add: py_round2_def)
next
  case NaN
  with assms show ?thesis
    by (simp add: le_zero_iff)
qed

lemma double_div_neg_by_pos:
  assumes "x < 0" and "mc \<noteq> 0" and "is_finite (x / Finite False mc ec)"
    and "\<not> fl_eq (x / Finite False mc ec) 0"
  shows "x / Finite False mc ec < 0"
proof (cases x)
  case (Finite s m e)
  with assms(1) have s: "s" "m \<noteq> 0"
    by (simp_all add: less_zero_iff)
  have q: "x / Finite False mc ec = round_scaled True \<bar>m\<bar> \<bar>mc\<bar> (e - ec)"
    unfolding Finite divide_double_def double.case using s assms(2) by simp
  from round_scaled_sign [of True "\<bar>m\<bar>" "\<bar>mc\<bar>" "e - ec"] assms(3,4)
  show ?thesis
    unfolding q by (auto simp: is_finite_def fl_eq_zero_iff less_zero_iff)
next
  case (Inf t)
  with assms(3) show ?thesis
    by (simp add: divide_double_def is_finite_def)
next
  case NaN
  with assms(1) show ?thesis
    by (simp add: less_zero_iff)
qed

section \<open>GDS/TDS: the pass flags\<close>

lemma calculate_gds_tds_try_success:
  assumes "get_float E event ''gross_annual_income'' (VInt 0) = Inr gi"
    and "get_float E event ''monthly_mortgage_payment'' (VInt 0) = Inr mp"
    and "get_float E event ''monthly_property_taxes'' (VInt 0) = Inr pt"
    and "get_float E event ''monthly_heating'' (VInt 0) = Inr ht"
    and "get_float E event ''monthly_condo_fees'' (VInt 0) = Inr cf"
    and "get_float E event ''monthly_other_debts'' (VInt 0) = Inr od"
    and "\<not> fl_eq gi 0"
    and "\<not> fl_eq (gi / D 12) 0"
  shows "calculate_gds_tds_try E event = Inr (Success
     \<lparr> gds_ratio = py_round2 ((mp + pt + ht + dbl 5 10 * cf) / (gi / D 12) * D 100),
       tds_ratio = py_round2 ((mp + pt + ht + dbl 5 10 * cf + od) / (gi / D 12) * D 100),
       gds_limit = 39,
       tds_limit = 44,
       gds_pass = ((mp + pt + ht + dbl 5 10 * cf) / (gi / D 12) * D 100 \<le> D 39),
       tds_pass = ((mp + pt + ht + dbl 5 10 * cf + od) / (gi / D 12) * D 100 \<le> D 44),
       overall_pass = ((mp + pt + ht + dbl 5 10 * cf) / (gi / D 12) * D 100 \<le> D 39
                       \<and> (mp + pt + ht + dbl 5 10 * cf + od) / (gi / D 12) * D 100 \<le> D 44),
       monthly_income = py_round2 (gi / D 12),
       gds_costs = py_round2 (mp + pt + ht + dbl 5 10 * cf),
       tds_costs = py_round2 (mp + pt + ht + dbl 5 10 * cf + od),
       recommendation =
         (if (mp + pt + ht + dbl 5 10 * cf) / (gi / D 12) * D 100 \<le> D 39
             \<and> (mp + pt + ht + dbl 5 10 * cf + od) / (gi / D 12) * D 100 \<le> D 44
          then [Lit ''Approved - Debt ratios within CMHC limits'']
          else [Lit ''Denied - Debt ratios exceed CMHC limits'']) \<rparr>)"
  unfolding calculate_gds_tds_try_def assms(1-6) bindE_Inr Let_def py_div_nonzero [OF assms(8)]
  using assms(7) by (simp only: if_False)

text \<open>
  C1, as the code has it. For a GDS/TDS request whose arguments convert to floats, whose
  \<^verbatim>\<open>gross_annual_income\<close> is not 0 and whose monthly income
  \<^verbatim>\<open>gross_annual_income / 12\<close> is not 0 either (the twelfth of the least subnormal
  incomes is a zero), the calculator returns a result in which \<^verbatim>\<open>gds_pass\<close> holds
  exactly when the GDS ratio
  \<open>(mortgage + taxes + heating + 0.5 * condo) / (income / 12) * 100\<close> is at most 39,
  \<^verbatim>\<open>tds_pass\<close> holds exactly when the TDS ratio (the same with the other debts added
  to the costs) is at most 44, and \<^verbatim>\<open>overall_pass\<close> is the conjunction of the two.
  The ratios are computed in binary64, operation by operation as the source does, and are
  compared unrounded; the fields \<^verbatim>\<open>gds_ratio\<close> and \<^verbatim>\<open>tds_ratio\<close> hold them rounded
  to two decimals.
\<close>

theorem gds_tds_pass_flags:
  assumes "get_float E event ''gross_annual_income'' (VInt 0) = Inr gi"
    and "get_float E event ''monthly_mortgage_payment'' (VInt 0) = Inr mp"
    and "get_float E event ''monthly_property_taxes'' (VInt 0) = Inr pt"
    and "get_float E event ''monthly_heating'' (VInt 0) = Inr ht"
    and "get_float E event ''monthly_condo_fees'' (VInt 0) = Inr cf"
    and "get_float E event ''monthly_other_debts'' (VInt 0) = Inr od"
    and "\<not> fl_eq gi 0"
    and "\<not> fl_eq (gi / D 12) 0"
  shows "\<exists>r. calculate_gds_tds E event = Success r
      \<and> (gds_pass r \<longleftrightarrow> (mp + pt + ht + dbl 5 10 * cf) / (gi / D 12) * D 100 \<le> D 39)
      \<and> (tds_pass r \<longleftrightarrow> (mp + pt + ht + dbl 5 10 * cf + od) / (gi / D 12) * D 100 \<le> D 44)
      \<and> (overall_pass r \<longleftrightarrow> gds_pass r \<and> tds_pass r)
      \<and> gds_ratio r = py_round2 ((mp + pt + ht + dbl 5 10 * cf) / (gi / D 12) * D 100)
      \<and> tds_ratio r = py_round2 ((mp + pt + ht + dbl 5 10 * cf + od) / (gi / D 12) * D 100)"
  unfolding calculate_gds_tds_def calculate_gds_tds_try_success [OF assms]
  by (simp only: sum.case gds_tds_result.simps calc_result.inject simp_thms ex_simps)

text \<open>
  The witness is the request with income 15852 and mortgage payment 515.19: in binary64
  the GDS ratio is 39.00000000000001, so \<^verbatim>\<open>gds_pass\<close> is false, and the returned
  \<^verbatim>\<open>gds_ratio\<close> is 39.0.
\<close>

theorem gds_tds_pass_flags_witness:
  "\<exists>r. calculate_gds_tds sample_env
          (VDict [(''gross_annual_income'', VInt 15852),
                  (''monthly_mortgage_payment'', VFloat (dbl 51519 100))]) = Success r
      \<and> \<not> gds_pass r \<and> tds_pass r \<and> \<not> overall_pass r \<and> gds_ratio r = D 39"
proof -
  let ?ev = "VDict [(''gross_annual_income'', VInt 15852),
                    (''monthly_mortgage_payment'', VFloat (dbl 51519 100))]"
  have c: "get_float sample_env ?ev ''gross_annual_income'' (VInt 0) = Inr (D 15852)"
    "get_float sample_env ?ev ''monthly_mortgage_payment'' (VInt 0) = Inr (dbl 51519 100)"
    "get_float sample_env ?ev ''monthly_property_taxes'' (VInt 0) = Inr 0"
    "get_float sample_env ?ev ''monthly_heating'' (VInt 0) = Inr 0"
    "get_float sample_env ?ev ''monthly_condo_fees'' (VInt 0) = Inr 0"
    "get_float sample_env ?ev ''monthly_other_debts'' (VInt 0) = Inr 0"
    by code_simp+
  have n: "\<not> fl_eq (D 15852) 0" "\<not> fl_eq (D 15852 / D 12) 0"
    by code_simp+
  have v: "\<not> (dbl 51519 100 + 0 + 0 + dbl 5 10 * 0) / (D 15852 / D 12) * D 100 \<le> D 39"
    "(dbl 51519 100 + 0 + 0 + dbl 5 10 * 0 + 0) / (D 15852 / D 12) * D 100 \<le> D 44"
    "py_round2 ((dbl 51519 100 + 0 + 0 + dbl 5 10 * 0) / (D 15852 / D 12) * D 100) = D 39"
    by code_simp+
  from gds_tds_pass_flags [OF c n] v show ?thesis
    by auto
qed

text \<open>
  C1 as stated fails for an income that is not 0 but whose twelfth is: at the least
  positive double (5e-324) the division by the monthly income raises, and the calculator
  returns an error, not a result with pass flags.
\<close>

theorem gds_tds_subnormal_income_counterexample:
  "\<not> fl_eq (Finite False 1 (- 1074)) 0
   \<and> calculate_gds_tds sample_env
        (VDict [(''gross_annual_income'', VFloat (Finite False 1 (- 1074))),
                (''monthly_mortgage_payment'', VInt 1)])
      = ErrorResult [Lit ''GDS/TDS calculation failed: '', FmtExn ZeroDivisionError]"
  by code_simp

section \<open>GDS/TDS: negative income\<close>

lemma negative_income_not_zero:
  fixes gi :: double
  assumes "gi < 0"
  shows "\<not> fl_eq gi 0"
  using double_less_not_le [OF assms] by (simp add: fl_eq_def)

lemma gds_costs_nonneg:
  fixes mp pt ht cf :: double
  assumes "0 \<le> mp" and "0 \<le> pt" and "0 \<le> ht" and "0 \<le> cf"
  shows "0 \<le> mp + pt + ht + dbl 5 10 * cf"
proof -
  have h: "dbl 5 10 = Finite False 1 (- 1)"
    by code_simp
  have "0 \<le> dbl 5 10 * cf"
    unfolding h using assms(4) by (intro double_mult_pos_nonneg) simp_all
  with assms(1-3) show ?thesis
    by (intro double_add_nonneg)
qed

lemma negative_ratio:
  fixes c mi :: double
  assumes "0 \<le> c" and "mi < 0" and "is_finite mi"
  shows "c / mi * D 100 \<le> 0"
proof -
  have h: "D 100 = Finite False 25 2"
    by code_simp
  have "c / mi \<le> 0"
    using assms by (rule double_div_nonneg_neg)
  then show ?thesis
    unfolding h by (intro double_mult_nonpos_pos) simp_all
qed

text \<open>
  C10, as the code has it. For a GDS/TDS request whose arguments convert to floats, whose
  \<^verbatim>\<open>gross_annual_income\<close> is negative with a monthly income
  \<^verbatim>\<open>gross_annual_income / 12\<close> that is finite and not 0, and whose five monthly cost
  inputs are nonnegative, the calculator returns a result, not an error; in that result
  \<^verbatim>\<open>gds_ratio\<close> and \<^verbatim>\<open>tds_ratio\<close> are at most 0, and \<^verbatim>\<open>gds_pass\<close>,
  \<^verbatim>\<open>tds_pass\<close> and \<^verbatim>\<open>overall_pass\<close> are all true.
\<close>

theorem gds_tds_negative_income:
  assumes "get_float E event ''gross_annual_income'' (VInt 0) = Inr gi"
    and "get_float E event ''monthly_mortgage_payment'' (VInt 0) = Inr mp"
    and "get_float E event ''monthly_property_taxes'' (VInt 0) = Inr pt"
    and "get_float E event ''monthly_heating'' (VInt 0) = Inr ht"
    and "get_float E event ''monthly_condo_fees'' (VInt 0) = Inr cf"
    and "get_float E event ''monthly_other_debts'' (VInt 0) = Inr od"
    and "gi < 0"
    and "is_finite (gi / D 12)"
    and "\<not> fl_eq (gi / D 12) 0"
    and "0 \<le> mp" and "0 \<le> pt" and "0 \<le> ht" and "0 \<le> cf" and "0 \<le> od"
  shows "\<exists>r. calculate_gds_tds E event = Success r
      \<and> gds_ratio r \<le> 0 \<and> tds_ratio r \<le> 0
      \<and> gds_pass r \<and> tds_pass r \<and> overall_pass r"
proof -
  let ?g = "(mp + pt + ht + dbl 5 10 * cf) / (gi / D 12) * D 100"
  let ?t = "(mp + pt + ht + dbl 5 10 * cf + od) / (gi / D 12) * D 100"
  have nz: "\<not> fl_eq gi 0"
    using assms(7) by (rule negative_income_not_zero)
  obtain r where r: "calculate_gds_tds_try E event = Inr (Success r)"
    and f: "gds_ratio r = py_round2 ?g" "tds_ratio r = py_round2 ?t"
      "gds_pass r = (?g \<le> D 39)" "tds_pass r = (?t \<le> D 44)"
      "overall_pass r = (?g \<le> D 39 \<and> ?t \<le> D 44)"
    using calculate_gds_tds_try_success [OF assms(1-6) nz assms(9)]
    by (simp only: gds_tds_result.simps)
  have res: "calculate_gds_tds E event = Success r"
    unfolding calculate_gds_tds_def r by (simp only: sum.case)
  have d12: "D 12 = Finite False 3 2"
    by code_simp
  have mi: "gi / D 12 < 0"
    using assms(7,8,9) unfolding d12 by (intro double_div_neg_by_pos) simp_all
  have c1: "0 \<le> mp + pt + ht + dbl 5 10 * cf"
    using assms(10-13) by (rule gds_costs_nonneg)
  have c2: "0 \<le> mp + pt + ht + dbl 5 10 * cf + od"
    using c1 assms(14) by (rule double_add_nonneg)
  have g: "?g \<le> 0"
    using c1 mi assms(8) by (rule negative_ratio)
  have t: "?t \<le> 0"
    using c2 mi assms(8) by (rule negative_ratio)
  have lim: "(0::double) \<le> D 39" "(0::double) \<le> D 44"
    by code_simp+
  have g39: "?g \<le> D 39"
    using g lim(1) by (rule double_le_trans)
  have t44: "?t \<le> D 44"
    using t lim(2) by (rule double_le_trans)
  have rg: "gds_ratio r \<le> 0"
    unfolding f using g by (rule py_round2_nonpos)
  have rt: "tds_ratio r \<le> 0"
    unfolding f using t by (rule py_round2_nonpos)
  from res rg rt g39 t44 f(3-5) show ?thesis
    by blast
qed

text \<open>
  The witness is the request with income -60000 and mortgage payment 1500: the GDS and
  TDS ratios are -30.0 and all three flags are true.
\<close>

theorem gds_tds_negative_income_witness:
  "\<exists>r. calculate_gds_tds sample_env
          (VDict [(''gross_annual_income'', VInt (- 60000)),
                  (''monthly_mortgage_payment'', VInt 1500)]) = Success r
      \<and> gds_ratio r \<le> 0 \<and> tds_ratio r \<le> 0
      \<and> gds_pass r \<and> tds_pass r \<and> overall_pass r"
proof -
  let ?ev = "VDict [(''gross_annual_income'', VInt (- 60000)),
                    (''monthly_mortgage_payment'', VInt 1500)]"
  have c: "get_float sample_env ?ev ''gross_annual_income'' (VInt 0) = Inr (D (- 60000))"
    "get_float sample_env ?ev ''monthly_mortgage_payment'' (VInt 0) = Inr (D 1500)"
    "get_float sample_env ?ev ''monthly_property_taxes'' (VInt 0) = Inr 0"
    "get_float sample_env ?ev ''monthly_heating'' (VInt 0) = Inr 0"
    "get_float sample_env ?ev ''monthly_condo_fees'' (VInt 0) = Inr 0"
    "get_float sample_env ?ev ''monthly_other_debts'' (VInt 0) = Inr 0"
    by code_simp+
  have n: "D (- 60000) < 0" "is_finite (D (- 60000) / D 12)"
    "\<not> fl_eq (D (- 60000) / D 12) 0"
    "(0::double) \<le> D 1500" "(0::double) \<le> 0" "(0::double) \<le> 0" "(0::double) \<le> 0"
    "(0::double) \<le> 0"
    by code_simp+
  from gds_tds_negative_income [OF c n] show ?thesis .
qed

text \<open>
  C10 as stated fails in two ways. An income of -5e-324 is strictly negative, but its
  twelfth is a zero: the division raises and the calculator returns an error. And with
  income -12000000 and a mortgage payment of 1 the cost inputs are nonnegative with one
  positive, yet the returned \<^verbatim>\<open>gds_ratio\<close> and \<^verbatim>\<open>tds_ratio\<close> are -0.0 (the ratio
  -0.0001 rounded to two decimals), which is not negative.
\<close>

theorem gds_tds_negative_income_counterexample:
  "Finite True 1 (- 1074) < 0
   \<and> calculate_gds_tds sample_env
        (VDict [(''gross_annual_income'', VFloat (Finite True 1 (- 1074))),
                (''monthly_mortgage_payment'', VInt 1)])
      = ErrorResult [Lit ''GDS/TDS calculation failed: '', FmtExn ZeroDivisionError]
   \<and> map_option gds_ratio (success_of (calculate_gds_tds sample_env
        (VDict [(''gross_annual_income'', VInt (- 12000000)),
                (''monthly_mortgage_payment'', VInt 1)]))) = Some (Finite True 0 0)
   \<and> map_option tds_ratio (success_of (calculate_gds_tds sample_env
        (VDict [(''gross_annual_income'', VInt (- 12000000)),
                (''monthly_mortgage_payment'', VInt 1)]))) = Some (Finite True 0 0)
   \<and> \<not> Finite True 0 0 < (0::double)"
  by code_simp

section \<open>Stress test: qualifying rate and payments\<close>

lemma fl_eq_zero_zero: "fl_eq (0::double) 0"
  by code_simp

lemma one_minus_one: "fl_eq ((1::double) - 1) 0"
  by code_simp

lemma int_to_double_zero: "int_to_double 0 = Inr 0"
  by code_simp

lemma py_pow_zero: "py_pow E x 0 = Inr 1"
  unfolding py_pow_def int_to_double_zero bindE_Inr float_pow_def
  using fl_eq_zero_zero by (simp only: if_True)

lemma payment_zero_periods: "payment E loan rate 0 = Inl ZeroDivisionError"
proof (cases "0 < rate")
  case True
  then show ?thesis
    unfolding payment_def py_pow_zero bindE_Inr py_div_zero [OF one_minus_one]
    by (simp only: if_True)
next
  case False
  then show ?thesis
    unfolding payment_def int_to_double_zero bindE_Inr py_div_zero [OF fl_eq_zero_zero]
    by (simp only: if_False)
qed

lemma payment_formula:
  assumes "0 < rate" and "py_pow E (1 + rate) n = Inr pw" and "\<not> fl_eq (pw - 1) 0"
  shows "payment E loan rate n = Inr (spec_payment_formula loan rate pw)"
  unfolding payment_def assms(2) bindE_Inr py_div_nonzero [OF assms(3)] spec_payment_formula_def
  using assms(1) by (simp only: if_True)

lemma payment_straight_line:
  assumes "\<not> 0 < rate" and "int_to_double n = Inr w" and "\<not> fl_eq w 0"
  shows "payment E loan rate n = Inr (loan / w)"
  unfolding payment_def assms(2) bindE_Inr py_div_nonzero [OF assms(3)]
  using assms(1) by (simp only: if_False)

lemma payment_cases:
  assumes "int_to_double n = Inr w" and "\<not> fl_eq w 0"
    and "0 < rate \<longrightarrow> py_pow E (1 + rate) n = Inr pw \<and> \<not> fl_eq (pw - 1) 0"
  shows "payment E loan rate n =
           Inr (if 0 < rate then spec_payment_formula loan rate pw else loan / w)"
proof (cases "0 < rate")
  case True
  with assms(3) have "py_pow E (1 + rate) n = Inr pw" "\<not> fl_eq (pw - 1) 0"
    by blast+
  from payment_formula [OF True this] True show ?thesis
    by (simp only: if_True)
next
  case False
  from payment_straight_line [OF False assms(1,2)] False show ?thesis
    by (simp only: if_False)
qed

lemma osfi_b20_stress_test_try_success:
  assumes "get_float E event ''purchase_price'' (VInt 0) = Inr pp"
    and "get_float E event ''down_payment'' (VInt 0) = Inr dp"
    and "get_float E event ''contract_interest_rate'' (VFloat (dbl 35 10)) = Inr cr"
    and "get_int E event ''amortization_years'' (VInt 25) = Inr am"
    and "\<not> fl_eq pp 0"
    and "payment E (pp - dp) (py_max (cr + dbl 20 10) (dbl 525 100) / D 100 / D 12) (am * 12)
           = Inr qp"
    and "payment E (pp - dp) (cr / D 100 / D 12) (am * 12) = Inr ap"
  shows "osfi_b20_stress_test_try E event = Inr (Success
     \<lparr> contract_rate = cr,
       qualifying_rate = py_max (cr + dbl 20 10) (dbl 525 100),
       stress_test_applied = (cr < py_max (cr + dbl 20 10) (dbl 525 100)),
       qualifying_payment = py_round2 qp,
       actual_payment = py_round2 ap,
       additional_qualifying_amount = py_round2 (qp - ap),
       loan_amount = py_round2 (pp - dp),
       amortization_years = am,
       message =
         [Lit ''Must qualify at '', FmtFloat (py_max (cr + dbl 20 10) (dbl 525 100)),
          Lit ''% per OSFI B-20 stress test (higher of contract rate + 2% or 5.25%)''] \<rparr>)"
  unfolding osfi_b20_stress_test_try_def assms(1-4) bindE_Inr Let_def assms(6,7)
  using assms(5) by (simp only: if_False)

lemma osfi_b20_stress_test_returns:
  assumes "get_float E event ''purchase_price'' (VInt 0) = Inr pp"
    and "get_float E event ''down_payment'' (VInt 0) = Inr dp"
    and "get_float E event ''contract_interest_rate'' (VFloat (dbl 35 10)) = Inr cr"
    and "get_int E event ''amortization_years'' (VInt 25) = Inr am"
    and "\<not> fl_eq pp 0"
    and "payment E (pp - dp) (py_max (cr + dbl 20 10) (dbl 525 100) / D 100 / D 12) (am * 12)
           = Inr qp"
    and "payment E (pp - dp) (cr / D 100 / D 12) (am * 12) = Inr ap"
  shows "\<exists>r. osfi_b20_stress_test E event = Success r
      \<and> contract_rate r = cr
      \<and> qualifying_rate r = py_max (cr + dbl 20 10) (dbl 525 100)
      \<and> qualifying_payment r = py_round2 qp
      \<and> actual_payment r = py_round2 ap"
  unfolding osfi_b20_stress_test_def osfi_b20_stress_test_try_success [OF assms]
  by (simp only: sum.case stress_result.simps calc_result.inject simp_thms ex_simps)

lemma osfi_b20_stress_test_zero_amortization:
  assumes "get_float E event ''purchase_price'' (VInt 0) = Inr pp"
    and "get_float E event ''down_payment'' (VInt 0) = Inr dp"
    and "get_float E event ''contract_interest_rate'' (VFloat (dbl 35 10)) = Inr cr"
    and "get_int E event ''amortization_years'' (VInt 25) = Inr 0"
    and "\<not> fl_eq pp 0"
  shows "osfi_b20_stress_test E event =
           ErrorResult [Lit ''Stress test calculation failed: '', FmtExn ZeroDivisionError]"
proof -
  have z: "(0::int) * 12 = 0"
    by simp
  show ?thesis
    unfolding osfi_b20_stress_test_def osfi_b20_stress_test_try_def assms(1-4) bindE_Inr
      Let_def z payment_zero_periods bindE_Inl
    using assms(5) by (simp only: if_False sum.case)
qed


text \<open>
  C2, as the code has it. For a stress-test request whose arguments convert, with a
  \<^verbatim>\<open>purchase_price\<close> other than 0, and whose two payments can be computed (the number of
  payments \<open>n = amortization_years * 12\<close> is a float other than 0 and, for a positive
  monthly rate \<open>r\<close>, the power \<open>(1 + r) ** n\<close> is computed and differs from 1), the
  calculator returns a result whose \<^verbatim>\<open>qualifying_rate\<close> is
  \<open>max (contract_rate + 2.0) 5.25\<close>; a contract rate of 3.5 gives 5.5 and a contract
  rate of 5.0 gives 7.0.
\<close>

theorem stress_qualifying_rate:
  assumes "get_float E event ''purchase_price'' (VInt 0) = Inr pp"
    and "get_float E event ''down_payment'' (VInt 0) = Inr dp"
    and "get_float E event ''contract_interest_rate'' (VFloat (dbl 35 10)) = Inr cr"
    and "get_int E event ''amortization_years'' (VInt 25) = Inr am"
    and "\<not> fl_eq pp 0"
    and "int_to_double (am * 12) = Inr w" and "\<not> fl_eq w 0"
    and "0 < py_max (cr + dbl 20 10) (dbl 525 100) / D 100 / D 12 \<longrightarrow>
           py_pow E (1 + py_max (cr + dbl 20 10) (dbl 525 100) / D 100 / D 12) (am * 12) = Inr pwq
           \<and> \<not> fl_eq (pwq - 1) 0"
    and "0 < cr / D 100 / D 12 \<longrightarrow>
           py_pow E (1 + cr / D 100 / D 12) (am * 12) = Inr pwc \<and> \<not> fl_eq (pwc - 1) 0"
  shows "\<exists>r. osfi_b20_stress_test E event = Success r
      \<and> contract_rate r = cr
      \<and> qualifying_rate r = py_max (cr + dbl 20 10) (dbl 525 100)
      \<and> (cr = dbl 35 10 \<longrightarrow> qualifying_rate r = dbl 55 10)
      \<and> (cr = D 5 \<longrightarrow> qualifying_rate r = D 7)"
proof -
  from osfi_b20_stress_test_returns [OF assms(1-5)
      payment_cases [OF assms(6,7,8)] payment_cases [OF assms(6,7,9)]]
  obtain r where r: "osfi_b20_stress_test E event = Success r" "contract_rate r = cr"
    "qualifying_rate r = py_max (cr + dbl 20 10) (dbl 525 100)"
    by blast
  have e1: "py_max (dbl 35 10 + dbl 20 10) (dbl 525 100) = dbl 55 10"
    by code_simp
  have e2: "py_max (D 5 + dbl 20 10) (dbl 525 100) = D 7"
    by code_simp
  have "cr = dbl 35 10 \<longrightarrow> qualifying_rate r = dbl 55 10"
    using r(3) e1 by simp
  moreover have "cr = D 5 \<longrightarrow> qualifying_rate r = D 7"
    using r(3) e2 by simp
  ultimately show ?thesis
    using r by blast
qed

lemma sample_pow_55:
  "py_pow sample_env (Finite False 4524241125662611 (- 52)) 12 =
     Inr (Finite False 4757638046383563 (- 52))"
  by code_simp

lemma sample_pow_35:
  "py_pow sample_env (Finite False 1129183781570915 (- 50)) 12 =
     Inr (Finite False 4663778943404673 (- 52))"
  by code_simp

text \<open>
  The witness is a loan of 1200 over one year at the default contract rate 3.5: the
  qualifying rate is 5.5.
\<close>

theorem stress_qualifying_rate_witness:
  "\<exists>r. osfi_b20_stress_test sample_env
          (VDict [(''purchase_price'', VInt 1200), (''amortization_years'', VInt 1)]) = Success r
      \<and> contract_rate r = dbl 35 10
      \<and> qualifying_rate r = dbl 55 10"
proof -
  let ?ev = "VDict [(''purchase_price'', VInt 1200), (''amortization_years'', VInt 1)]"
  have c: "get_float sample_env ?ev ''purchase_price'' (VInt 0) = Inr (D 1200)"
    "get_float sample_env ?ev ''down_payment'' (VInt 0) = Inr 0"
    "get_float sample_env ?ev ''contract_interest_rate'' (VFloat (dbl 35 10)) = Inr (dbl 35 10)"
    by code_simp+
  have a: "get_int sample_env ?ev ''amortization_years'' (VInt 25) = Inr 1"
    by code_simp
  have p: "\<not> fl_eq (D 1200) 0"
    by code_simp
  have w: "int_to_double (1 * 12) = Inr (Finite False 3 2)" "\<not> fl_eq (Finite False 3 2) 0"
    by code_simp+
  have bq: "1 + py_max (dbl 35 10 + dbl 20 10) (dbl 525 100) / D 100 / D 12
              = Finite False 4524241125662611 (- 52)"
    by code_simp
  have bc: "1 + dbl 35 10 / D 100 / D 12 = Finite False 1129183781570915 (- 50)"
    by code_simp
  have n: "(1::int) * 12 = 12"
    by simp
  have nq: "\<not> fl_eq (Finite False 4757638046383563 (- 52) - 1) 0"
    "\<not> fl_eq (Finite False 4663778943404673 (- 52) - 1) 0"
    by code_simp+
  have q: "0 < py_max (dbl 35 10 + dbl 20 10) (dbl 525 100) / D 100 / D 12 \<longrightarrow>
      py_pow sample_env (1 + py_max (dbl 35 10 + dbl 20 10) (dbl 525 100) / D 100 / D 12) (1 * 12)
        = Inr (Finite False 4757638046383563 (- 52))
      \<and> \<not> fl_eq (Finite False 4757638046383563 (- 52) - 1) 0"
    unfolding bq n using sample_pow_55 nq(1) by blast
  have k: "0 < dbl 35 10 / D 100 / D 12 \<longrightarrow>
      py_pow sample_env (1 + dbl 35 10 / D 100 / D 12) (1 * 12)
        = Inr (Finite False 4663778943404673 (- 52))
      \<and> \<not> fl_eq (Finite False 4663778943404673 (- 52) - 1) 0"
    unfolding bc n using sample_pow_35 nq(2) by blast
  have e: "py_max (dbl 35 10 + dbl 20 10) (dbl 525 100) = dbl 55 10"
    by code_simp
  from stress_qualifying_rate [OF c a p w q k] show ?thesis
    by auto
qed

text \<open>
  C2 as stated fails when \<^verbatim>\<open>amortization_years\<close> is 0: the purchase price is not 0,
  but the payment divides by zero and the calculator returns an error, so no qualifying
  rate is returned.
\<close>

theorem stress_zero_amortization_counterexample:
  "\<not> fl_eq (D 1200) 0
   \<and> osfi_b20_stress_test sample_env
        (VDict [(''purchase_price'', VInt 1200), (''contract_interest_rate'', VFloat (D 5)),
                (''amortization_years'', VInt 0)])
      = ErrorResult [Lit ''Stress test calculation failed: '', FmtExn ZeroDivisionError]"
  by code_simp

lemma spec_payment_agrees:
  assumes "int_to_double n = Inr w" and "\<not> fl_eq w 0"
    and "0 < rate \<longrightarrow> py_pow E (1 + rate) n = Inr pw \<and> \<not> fl_eq (pw - 1) 0"
    and "0 < rate \<or> fl_eq rate 0"
  shows "spec_payment E loan rate n =
           Inr (if 0 < rate then spec_payment_formula loan rate pw else loan / w)"
proof (cases "0 < rate")
  case True
  with assms(3) have pw: "py_pow E (1 + rate) n = Inr pw" "\<not> fl_eq (pw - 1) 0"
    by blast+
  from True have nz: "\<not> fl_eq rate 0"
    using fl_eq_zero_not_pos by blast
  show ?thesis
    unfolding spec_payment_def pw(1) bindE_Inr
    using nz pw(2) True by (simp only: if_False if_True)
next
  case False
  with assms(4) have z: "fl_eq rate 0"
    by blast
  show ?thesis
    unfolding spec_payment_def assms(1) bindE_Inr py_div_nonzero [OF assms(2)]
    using z False by (simp only: if_False if_True)
qed

text \<open>
  C7, as the code has it. For a stress-test request whose arguments convert, with a
  \<^verbatim>\<open>purchase_price\<close> other than 0, \<open>L = purchase_price - down_payment\<close>,
  \<open>n = amortization_years * 12\<close> and a monthly rate of the annual rate \<open>/ 100 / 12\<close>:
  when \<open>n\<close> is a float other than 0 and, for each of the two monthly rates that is
  positive, the power \<open>pw = (1 + r) ** n\<close> is computed and differs from 1, the calculator
  returns a result. Its qualifying and actual payments are, rounded to two decimals, the
  formula \<open>L * (r * pw) / (pw - 1)\<close> when the monthly rate \<open>r\<close> is positive and
  \<open>L / n\<close> when it is zero, negative or NaN. For a monthly rate that is positive or
  zero this is the specification's rule.
\<close>

theorem stress_payments:
  assumes "get_float E event ''purchase_price'' (VInt 0) = Inr pp"
    and "get_float E event ''down_payment'' (VInt 0) = Inr dp"
    and "get_float E event ''contract_interest_rate'' (VFloat (dbl 35 10)) = Inr cr"
    and "get_int E event ''amortization_years'' (VInt 25) = Inr am"
    and "\<not> fl_eq pp 0"
    and "int_to_double (am * 12) = Inr w" and "\<not> fl_eq w 0"
    and "0 < py_max (cr + dbl 20 10) (dbl 525 100) / D 100 / D 12 \<longrightarrow>
           py_pow E (1 + py_max (cr + dbl 20 10) (dbl 525 100) / D 100 / D 12) (am * 12) = Inr pwq
           \<and> \<not> fl_eq (pwq - 1) 0"
    and "0 < cr / D 100 / D 12 \<longrightarrow>
           py_pow E (1 + cr / D 100 / D 12) (am * 12) = Inr pwc \<and> \<not> fl_eq (pwc - 1) 0"
  shows "\<exists>r. osfi_b20_stress_test E event = Success r
      \<and> qualifying_payment r =
           py_round2 (if 0 < py_max (cr + dbl 20 10) (dbl 525 100) / D 100 / D 12
                      then spec_payment_formula (pp - dp)
                             (py_max (cr + dbl 20 10) (dbl 525 100) / D 100 / D 12) pwq
                      else (pp - dp) / w)
      \<and> actual_payment r =
           py_round2 (if 0 < cr / D 100 / D 12
                      then spec_payment_formula (pp - dp) (cr / D 100 / D 12) pwc
                      else (pp - dp) / w)
      \<and> (0 < cr / D 100 / D 12 \<or> fl_eq (cr / D 100 / D 12) 0 \<longrightarrow>
           map_sum id py_round2 (spec_payment E (pp - dp) (cr / D 100 / D 12) (am * 12))
             = Inr (actual_payment r))"
proof -
  from osfi_b20_stress_test_returns [OF assms(1-5)
      payment_cases [OF assms(6,7,8)] payment_cases [OF assms(6,7,9)]]
  obtain r where r: "osfi_b20_stress_test E event = Success r"
    and qp: "qualifying_payment r =
           py_round2 (if 0 < py_max (cr + dbl 20 10) (dbl 525 100) / D 100 / D 12
                      then spec_payment_formula (pp - dp)
                             (py_max (cr + dbl 20 10) (dbl 525 100) / D 100 / D 12) pwq
                      else (pp - dp) / w)"
    and ap: "actual_payment r =
           py_round2 (if 0 < cr / D 100 / D 12
                      then spec_payment_formula (pp - dp) (cr / D 100 / D 12) pwc
                      else (pp - dp) / w)"
    by blast
  have "0 < cr / D 100 / D 12 \<or> fl_eq (cr / D 100 / D 12) 0 \<longrightarrow>
           map_sum id py_round2 (spec_payment E (pp - dp) (cr / D 100 / D 12) (am * 12))
             = Inr (actual_payment r)"
  proof
    assume h: "0 < cr / D 100 / D 12 \<or> fl_eq (cr / D 100 / D 12) 0"
    show "map_sum id py_round2 (spec_payment E (pp - dp) (cr / D 100 / D 12) (am * 12))
             = Inr (actual_payment r)"
      unfolding spec_payment_agrees [OF assms(6,7,9) h] ap
      by (simp only: map_sum.simps)
  qed
  with r qp ap show ?thesis
    by blast
qed

lemma sample_pow_525:
  "py_pow sample_env (Finite False 2261651437870121 (- 51)) 12 =
     Inr (Finite False 4745811712395573 (- 52))"
  by code_simp

lemma sample_pow_minus_12:
  "py_pow sample_env (Finite False 8998192055486251 (- 53)) 12 =
     Inr (Finite False 8899705361702515 (- 53))"
  by code_simp

text \<open>
  The witness is a loan of 1200 over one year at a contract rate of 0: the qualifying
  payment is the formula at 5.25%, 102.87, and the actual payment is 1200 / 12.
\<close>

theorem stress_payments_witness:
  "\<exists>r. osfi_b20_stress_test sample_env
          (VDict [(''purchase_price'', VInt 1200), (''contract_interest_rate'', VInt 0),
                  (''amortization_years'', VInt 1)]) = Success r
      \<and> qualifying_payment r = dbl 10287 100
      \<and> actual_payment r = D 100"
proof -
  let ?ev = "VDict [(''purchase_price'', VInt 1200), (''contract_interest_rate'', VInt 0),
                    (''amortization_years'', VInt 1)]"
  have c: "get_float sample_env ?ev ''purchase_price'' (VInt 0) = Inr (D 1200)"
    "get_float sample_env ?ev ''down_payment'' (VInt 0) = Inr 0"
    "get_float sample_env ?ev ''contract_interest_rate'' (VFloat (dbl 35 10)) = Inr 0"
    by code_simp+
  have a: "get_int sample_env ?ev ''amortization_years'' (VInt 25) = Inr 1"
    by code_simp
  have p: "\<not> fl_eq (D 1200) 0"
    by code_simp
  have w: "int_to_double (1 * 12) = Inr (Finite False 3 2)" "\<not> fl_eq (Finite False 3 2) 0"
    by code_simp+
  have bq: "1 + py_max (0 + dbl 20 10) (dbl 525 100) / D 100 / D 12
              = Finite False 2261651437870121 (- 51)"
    by code_simp
  have n: "(1::int) * 12 = 12"
    by simp
  have nq: "\<not> fl_eq (Finite False 4745811712395573 (- 52) - 1) 0"
    by code_simp
  have q: "0 < py_max (0 + dbl 20 10) (dbl 525 100) / D 100 / D 12 \<longrightarrow>
      py_pow sample_env (1 + py_max (0 + dbl 20 10) (dbl 525 100) / D 100 / D 12) (1 * 12)
        = Inr (Finite False 4745811712395573 (- 52))
      \<and> \<not> fl_eq (Finite False 4745811712395573 (- 52) - 1) 0"
    unfolding bq n using sample_pow_525 nq by blast
  have cz: "\<not> 0 < (0::double) / D 100 / D 12"
    by code_simp
  then have k: "0 < (0::double) / D 100 / D 12 \<longrightarrow>
      py_pow sample_env (1 + 0 / D 100 / D 12) (1 * 12) = Inr 0 \<and> \<not> fl_eq (0 - 1) 0"
    by blast
  have v: "0 < py_max (0 + dbl 20 10) (dbl 525 100) / D 100 / D 12"
    "py_round2 (spec_payment_formula (D 1200 - 0)
        (py_max (0 + dbl 20 10) (dbl 525 100) / D 100 / D 12)
        (Finite False 4745811712395573 (- 52))) = dbl 10287 100"
    "py_round2 ((D 1200 - 0) / Finite False 3 2) = D 100"
    by code_simp+
  from stress_payments [OF c a p w q k] cz v show ?thesis
    by auto
qed

text \<open>
  C7 as the specification states it fails for a negative contract rate: the source tests
  \<^verbatim>\<open>contract_monthly_rate > 0\<close>, so at -1.2% over one year on 1200 it returns the
  straight-line payment 100, where the specification's rule (the formula for every rate
  but 0) gives 99.35.
\<close>

theorem stress_payments_negative_rate_counterexample:
  "map_option actual_payment (success_of (osfi_b20_stress_test sample_env
          (VDict [(''purchase_price'', VInt 1200),
                  (''contract_interest_rate'', VFloat (- dbl 12 10)),
                  (''amortization_years'', VInt 1)]))) = Some (D 100)
   \<and> map_sum id py_round2
        (spec_payment sample_env (D 1200 - 0) (- dbl 12 10 / D 100 / D 12) (1 * 12))
       = Inr (dbl 9935 100)"
proof -
  let ?ev = "VDict [(''purchase_price'', VInt 1200),
                    (''contract_interest_rate'', VFloat (- dbl 12 10)),
                    (''amortization_years'', VInt 1)]"
  have c: "get_float sample_env ?ev ''purchase_price'' (VInt 0) = Inr (D 1200)"
    "get_float sample_env ?ev ''down_payment'' (VInt 0) = Inr 0"
    "get_float sample_env ?ev ''contract_interest_rate'' (VFloat (dbl 35 10)) = Inr (- dbl 12 10)"
    by code_simp+
  have a: "get_int sample_env ?ev ''amortization_years'' (VInt 25) = Inr 1"
    by code_simp
  have p: "\<not> fl_eq (D 1200) 0"
    by code_simp
  have w: "int_to_double (1 * 12) = Inr (Finite False 3 2)" "\<not> fl_eq (Finite False 3 2) 0"
    by code_simp+
  have n: "(1::int) * 12 = 12"
    by simp
  have bq: "1 + py_max (- dbl 12 10 + dbl 20 10) (dbl 525 100) / D 100 / D 12
              = Finite False 2261651437870121 (- 51)"
    by code_simp
  have nq: "\<not> fl_eq (Finite False 4745811712395573 (- 52) - 1) 0"
    by code_simp
  have q: "0 < py_max (- dbl 12 10 + dbl 20 10) (dbl 525 100) / D 100 / D 12"
    by code_simp
  have qp: "payment sample_env (D 1200 - 0)
              (py_max (- dbl 12 10 + dbl 20 10) (dbl 525 100) / D 100 / D 12) (1 * 12)
            = Inr (spec_payment_formula (D 1200 - 0)
                (py_max (- dbl 12 10 + dbl 20 10) (dbl 525 100) / D 100 / D 12)
                (Finite False 4745811712395573 (- 52)))"
    by (rule payment_formula [OF q _ nq]) (simp only: bq n sample_pow_525)
  have cn: "\<not> 0 < - dbl 12 10 / D 100 / D 12"
    by code_simp
  have ap: "payment sample_env (D 1200 - 0) (- dbl 12 10 / D 100 / D 12) (1 * 12)
            = Inr ((D 1200 - 0) / Finite False 3 2)"
    by (rule payment_straight_line [OF cn w])
  have v: "py_round2 ((D 1200 - 0) / Finite False 3 2) = D 100"
    by code_simp
  from osfi_b20_stress_test_returns [OF c a p qp ap] v
  have code: "map_option actual_payment (success_of (osfi_b20_stress_test sample_env ?ev))
                = Some (D 100)"
    by (auto simp: success_of_def)
  have bs: "1 + - dbl 12 10 / D 100 / D 12 = Finite False 8998192055486251 (- 53)"
    by code_simp
  have rz: "\<not> fl_eq (- dbl 12 10 / D 100 / D 12) 0"
    "\<not> fl_eq (Finite False 8899705361702515 (- 53) - 1) 0"
    "py_round2 (spec_payment_formula (D 1200 - 0) (- dbl 12 10 / D 100 / D 12)
        (Finite False 8899705361702515 (- 53))) = dbl 9935 100"
    by code_simp+
  have spec: "map_sum id py_round2
        (spec_payment sample_env (D 1200 - 0) (- dbl 12 10 / D 100 / D 12) (1 * 12))
       = Inr (dbl 9935 100)"
    unfolding spec_payment_def bs n sample_pow_minus_12 bindE_Inr
    using rz by (simp only: if_False map_sum.simps)
  from code spec show ?thesis
    by blast
qed

section \<open>Down payment: minimum and insurance premium\<close>

lemma calculate_down_payment_try_success:
  assumes "get_float E event ''purchase_price'' (VInt 0) = Inr pp"
    and "get_float E event ''proposed_down_payment'' (VInt 0) = Inr adp"
    and "\<not> fl_eq pp 0"
  shows "calculate_down_payment_try E event = Inr (Success
     \<lparr> purchase_price = py_round2 pp,
       min_down_payment = py_round2
         (if pp \<le> D 500000 then pp * dbl 5 100
          else if pp \<le> D 1000000
            then (D 500000 * dbl 5 100) + ((pp - D 500000) * dbl 10 100)
          else pp * dbl 20 100),
       actual_down_payment = py_round2 adp,
       down_payment_pct = py_round2 (adp / pp * D 100),
       sufficient =
         ((if pp \<le> D 500000 then pp * dbl 5 100
           else if pp \<le> D 1000000
             then (D 500000 * dbl 5 100) + ((pp - D 500000) * dbl 10 100)
           else pp * dbl 20 100) \<le> adp),
       cmhc_insurance_required = (adp / pp * D 100 < D 20),
       cmhc_premium = py_round2
         (if adp / pp * D 100 < D 20 \<and> pp < D 1000000
          then (pp - adp) *
               ((if D 20 \<le> adp / pp * D 100 then 0
                 else if D 15 \<le> adp / pp * D 100 then dbl 280 100
                 else if D 10 \<le> adp / pp * D 100 then dbl 310 100
                 else if D 5 \<le> adp / pp * D 100 then dbl 400 100
                 else 0) / D 100)
          else 0),
       cmhc_rate_pct =
         (if adp / pp * D 100 < D 20 \<and> pp < D 1000000
          then (if D 20 \<le> adp / pp * D 100 then 0
                 else if D 15 \<le> adp / pp * D 100 then dbl 280 100
                 else if D 10 \<le> adp / pp * D 100 then dbl 310 100
                 else if D 5 \<le> adp / pp * D 100 then dbl 400 100
                 else 0)
          else 0),
       total_loan_amount = py_round2 ((pp - adp) +
         (if adp / pp * D 100 < D 20 \<and> pp < D 1000000
          then (pp - adp) *
               ((if D 20 \<le> adp / pp * D 100 then 0
                 else if D 15 \<le> adp / pp * D 100 then dbl 280 100
                 else if D 10 \<le> adp / pp * D 100 then dbl 310 100
                 else if D 5 \<le> adp / pp * D 100 then dbl 400 100
                 else 0) / D 100)
          else 0)),
       shortfall = py_round2 (py_max 0 (
         (if pp \<le> D 500000 then pp * dbl 5 100
          else if pp \<le> D 1000000
            then (D 500000 * dbl 5 100) + ((pp - D 500000) * dbl 10 100)
          else pp * dbl 20 100) - adp)),
       dp_recommendation =
         (if ((if pp \<le> D 500000 then pp * dbl 5 100
               else if pp \<le> D 1000000
                 then (D 500000 * dbl 5 100) + ((pp - D 500000) * dbl 10 100)
               else pp * dbl 20 100) \<le> adp)
          then [Lit ''Approved - Down payment sufficient'']
          else [Lit ''Need $'', FmtMoney (py_round2 (
                  (if pp \<le> D 500000 then pp * dbl 5 100
                   else if pp \<le> D 1000000
                     then (D 500000 * dbl 5 100) + ((pp - D 500000) * dbl 10 100)
                   else pp * dbl 20 100) - adp)),
                Lit '' more for minimum down payment'']) \<rparr>)"
proof (cases "adp / pp * D 100 < D 20 \<and> pp < D 1000000")
  case True
  show ?thesis
    unfolding calculate_down_payment_try_def assms(1,2) bindE_Inr Let_def
      py_div_nonzero [OF assms(3)]
    using assms(3) True by (simp only: if_False if_True case_prod_conv simp_thms)
next
  case False
  show ?thesis
    unfolding calculate_down_payment_try_def assms(1,2) bindE_Inr Let_def
      py_div_nonzero [OF assms(3)]
    using assms(3) False by (simp only: if_False if_True case_prod_conv simp_thms)
qed

lemma py_round2_zero: "py_round2 0 = 0"
  by code_simp

text \<open>
  C3. For a down-payment request whose arguments convert to floats and whose
  \<^verbatim>\<open>purchase_price\<close> is not 0, with \<open>pct = proposed_down_payment / purchase_price * 100\<close>
  (in binary64): when \<open>pct < 20\<close> and the price is below 1,000,000 the rate is 2.80 for
  \<open>pct\<close> in [15,20), 3.10 in [10,15), 4.00 in [5,10) and 0 below 5, and the premium is
  \<open>(purchase_price - proposed_down_payment) * (rate / 100)\<close> (returned rounded to two
  decimals); otherwise rate and premium are 0. A price of 650000 with 50000 down gives
  \<^verbatim>\<open>down_payment_pct\<close> 7.69, insurance required, rate 4.00 and premium 24000.00.
\<close>

theorem down_payment_cmhc_premium:
  assumes "get_float E event ''purchase_price'' (VInt 0) = Inr pp"
    and "get_float E event ''proposed_down_payment'' (VInt 0) = Inr adp"
    and "\<not> fl_eq pp 0"
  shows "\<exists>r. calculate_down_payment E event = Success r
      \<and> down_payment_pct r = py_round2 (adp / pp * D 100)
      \<and> cmhc_insurance_required r = (adp / pp * D 100 < D 20)
      \<and> (adp / pp * D 100 < D 20 \<and> pp < D 1000000 \<longrightarrow>
           cmhc_rate_pct r =
             (if D 15 \<le> adp / pp * D 100 then dbl 280 100
              else if D 10 \<le> adp / pp * D 100 then dbl 310 100
              else if D 5 \<le> adp / pp * D 100 then dbl 400 100
              else 0)
           \<and> cmhc_premium r = py_round2 ((pp - adp) * (cmhc_rate_pct r / D 100)))
      \<and> (\<not> (adp / pp * D 100 < D 20 \<and> pp < D 1000000) \<longrightarrow>
           cmhc_rate_pct r = 0 \<and> cmhc_premium r = 0)
      \<and> (pp = D 650000 \<and> adp = D 50000 \<longrightarrow>
           down_payment_pct r = dbl 769 100 \<and> cmhc_insurance_required r
           \<and> cmhc_rate_pct r = dbl 400 100 \<and> cmhc_premium r = dbl 2400000 100)"
proof -
  let ?pct = "adp / pp * D 100"
  obtain r where r: "calculate_down_payment_try E event = Inr (Success r)"
    and pct: "down_payment_pct r = py_round2 ?pct"
    and req: "cmhc_insurance_required r = (?pct < D 20)"
    and rate: "cmhc_rate_pct r =
         (if ?pct < D 20 \<and> pp < D 1000000
          then (if D 20 \<le> ?pct then 0
                 else if D 15 \<le> ?pct then dbl 280 100
                 else if D 10 \<le> ?pct then dbl 310 100
                 else if D 5 \<le> ?pct then dbl 400 100
                 else 0)
          else 0)"
    and prem: "cmhc_premium r = py_round2
         (if ?pct < D 20 \<and> pp < D 1000000
          then (pp - adp) *
               ((if D 20 \<le> ?pct then 0
                 else if D 15 \<le> ?pct then dbl 280 100
                 else if D 10 \<le> ?pct then dbl 310 100
                 else if D 5 \<le> ?pct then dbl 400 100
                 else 0) / D 100)
          else 0)"
    using calculate_down_payment_try_success [OF assms]
    by (simp only: down_payment_result.simps)
  have res: "calculate_down_payment E event = Success r"
    unfolding calculate_down_payment_def r by (simp only: sum.case)
  have excl: "?pct < D 20 \<Longrightarrow> \<not> D 20 \<le> ?pct"
    by (rule double_less_not_le)
  have banded: "?pct < D 20 \<and> pp < D 1000000 \<longrightarrow>
           cmhc_rate_pct r =
             (if D 15 \<le> ?pct then dbl 280 100 else if D 10 \<le> ?pct then dbl 310 100
              else if D 5 \<le> ?pct then dbl 400 100 else 0)
           \<and> cmhc_premium r = py_round2 ((pp - adp) * (cmhc_rate_pct r / D 100))"
  proof
    assume h: "?pct < D 20 \<and> pp < D 1000000"
    then have n20: "\<not> D 20 \<le> ?pct"
      using excl by blast
    have rt: "cmhc_rate_pct r =
             (if D 15 \<le> ?pct then dbl 280 100 else if D 10 \<le> ?pct then dbl 310 100
              else if D 5 \<le> ?pct then dbl 400 100 else 0)"
      unfolding rate using h n20 by (simp only: if_True if_False simp_thms)
    have pr: "cmhc_premium r = py_round2 ((pp - adp) *
             ((if D 15 \<le> ?pct then dbl 280 100 else if D 10 \<le> ?pct then dbl 310 100
               else if D 5 \<le> ?pct then dbl 400 100 else 0) / D 100))"
      unfolding prem using h n20 by (simp only: if_True if_False simp_thms)
    have "cmhc_premium r = py_round2 ((pp - adp) * (cmhc_rate_pct r / D 100))"
      unfolding rt by (rule pr)
    with rt show "cmhc_rate_pct r =
             (if D 15 \<le> ?pct then dbl 280 100 else if D 10 \<le> ?pct then dbl 310 100
              else if D 5 \<le> ?pct then dbl 400 100 else 0)
           \<and> cmhc_premium r = py_round2 ((pp - adp) * (cmhc_rate_pct r / D 100))"
      by (rule conjI)
  qed
  have none: "\<not> (?pct < D 20 \<and> pp < D 1000000) \<longrightarrow> cmhc_rate_pct r = 0 \<and> cmhc_premium r = 0"
    unfolding rate prem by (auto simp only: if_False py_round2_zero simp_thms)
  have example: "pp = D 650000 \<and> adp = D 50000 \<longrightarrow>
           down_payment_pct r = dbl 769 100 \<and> cmhc_insurance_required r
           \<and> cmhc_rate_pct r = dbl 400 100 \<and> cmhc_premium r = dbl 2400000 100"
  proof
    assume "pp = D 650000 \<and> adp = D 50000"
    then have v: "pp = D 650000" "adp = D 50000"
      by blast+
    show "down_payment_pct r = dbl 769 100 \<and> cmhc_insurance_required r
           \<and> cmhc_rate_pct r = dbl 400 100 \<and> cmhc_premium r = dbl 2400000 100"
      unfolding rate prem pct req v by code_simp
  qed
  from res pct req banded none example show ?thesis
    by blast
qed


theorem down_payment_cmhc_premium_witness:
  "\<exists>r. calculate_down_payment sample_env
          (VDict [(''purchase_price'', VInt 650000), (''proposed_down_payment'', VInt 50000)])
          = Success r
      \<and> down_payment_pct r = dbl 769 100 \<and> cmhc_insurance_required r
      \<and> cmhc_rate_pct r = dbl 400 100 \<and> cmhc_premium r = dbl 2400000 100"
proof -
  let ?ev = "VDict [(''purchase_price'', VInt 650000), (''proposed_down_payment'', VInt 50000)]"
  have c: "get_float sample_env ?ev ''purchase_price'' (VInt 0) = Inr (D 650000)"
    "get_float sample_env ?ev ''proposed_down_payment'' (VInt 0) = Inr (D 50000)"
    by code_simp+
  have p: "\<not> fl_eq (D 650000) 0"
    by code_simp
  from down_payment_cmhc_premium [OF c p] show ?thesis
    by blast
qed

text \<open>
  C4. For a down-payment request whose arguments convert to floats and whose
  \<^verbatim>\<open>purchase_price\<close> is not 0, \<^verbatim>\<open>min_down_payment\<close> is (in binary64, rounded to two
  decimals) 5% of the price up to 500,000, 5% of 500,000 plus 10% of the remainder up to
  1,000,000, and 20% of the price above; a price of 650000 gives 40000; and
  \<^verbatim>\<open>sufficient\<close> holds exactly when the proposed down payment is at least the
  computed (unrounded) minimum.
\<close>

theorem down_payment_minimum:
  assumes "get_float E event ''purchase_price'' (VInt 0) = Inr pp"
    and "get_float E event ''proposed_down_payment'' (VInt 0) = Inr adp"
    and "\<not> fl_eq pp 0"
  shows "\<exists>r. calculate_down_payment E event = Success r
      \<and> (pp \<le> D 500000 \<longrightarrow> min_down_payment r = py_round2 (pp * dbl 5 100))
      \<and> (D 500000 < pp \<and> pp \<le> D 1000000 \<longrightarrow>
           min_down_payment r =
             py_round2 (D 500000 * dbl 5 100 + (pp - D 500000) * dbl 10 100))
      \<and> (D 1000000 < pp \<longrightarrow> min_down_payment r = py_round2 (pp * dbl 20 100))
      \<and> (pp = D 650000 \<longrightarrow> min_down_payment r = D 40000)
      \<and> (sufficient r \<longleftrightarrow>
           (if pp \<le> D 500000 then pp * dbl 5 100
            else if pp \<le> D 1000000 then D 500000 * dbl 5 100 + (pp - D 500000) * dbl 10 100
            else pp * dbl 20 100) \<le> adp)"
proof -
  obtain r where r: "calculate_down_payment_try E event = Inr (Success r)"
    and mdp: "min_down_payment r = py_round2
         (if pp \<le> D 500000 then pp * dbl 5 100
          else if pp \<le> D 1000000
            then (D 500000 * dbl 5 100) + ((pp - D 500000) * dbl 10 100)
          else pp * dbl 20 100)"
    and suf: "sufficient r =
         ((if pp \<le> D 500000 then pp * dbl 5 100
           else if pp \<le> D 1000000
             then (D 500000 * dbl 5 100) + ((pp - D 500000) * dbl 10 100)
           else pp * dbl 20 100) \<le> adp)"
    using calculate_down_payment_try_success [OF assms]
    by (simp only: down_payment_result.simps)
  have res: "calculate_down_payment E event = Success r"
    unfolding calculate_down_payment_def r by (simp only: sum.case)
  have low: "pp \<le> D 500000 \<longrightarrow> min_down_payment r = py_round2 (pp * dbl 5 100)"
    unfolding mdp by (simp only: if_True simp_thms split: if_split) blast
  have mid: "D 500000 < pp \<and> pp \<le> D 1000000 \<longrightarrow>
           min_down_payment r =
             py_round2 (D 500000 * dbl 5 100 + (pp - D 500000) * dbl 10 100)"
  proof
    assume h: "D 500000 < pp \<and> pp \<le> D 1000000"
    then have "\<not> pp \<le> D 500000"
      using double_less_not_le by blast
    with h show "min_down_payment r =
             py_round2 (D 500000 * dbl 5 100 + (pp - D 500000) * dbl 10 100)"
      unfolding mdp by (simp only: if_True if_False)
  qed
  have high: "D 1000000 < pp \<longrightarrow> min_down_payment r = py_round2 (pp * dbl 20 100)"
  proof
    assume h: "D 1000000 < pp"
    then have n1: "\<not> pp \<le> D 1000000"
      by (rule double_less_not_le)
    have c: "\<not> D 1000000 < D 500000"
      by code_simp
    have n5: "\<not> pp \<le> D 500000"
    proof
      assume "pp \<le> D 500000"
      with h have "D 1000000 < D 500000"
        by (rule double_less_le_trans)
      with c show False ..
    qed
    from n1 n5 show "min_down_payment r = py_round2 (pp * dbl 20 100)"
      unfolding mdp by (simp only: if_False)
  qed
  have example: "pp = D 650000 \<longrightarrow> min_down_payment r = D 40000"
  proof
    assume v: "pp = D 650000"
    show "min_down_payment r = D 40000"
      unfolding mdp v by code_simp
  qed
  from res low mid high example suf show ?thesis
    by blast
qed

theorem down_payment_minimum_witness:
  "\<exists>r. calculate_down_payment sample_env
          (VDict [(''purchase_price'', VInt 650000), (''proposed_down_payment'', VInt 50000)])
          = Success r
      \<and> min_down_payment r = D 40000 \<and> sufficient r"
proof -
  let ?ev = "VDict [(''purchase_price'', VInt 650000), (''proposed_down_payment'', VInt 50000)]"
  have c: "get_float sample_env ?ev ''purchase_price'' (VInt 0) = Inr (D 650000)"
    "get_float sample_env ?ev ''proposed_down_payment'' (VInt 0) = Inr (D 50000)"
    by code_simp+
  have p: "\<not> fl_eq (D 650000) 0"
    by code_simp
  have v: "(if D 650000 \<le> D 500000 then D 650000 * dbl 5 100
            else if D 650000 \<le> D 1000000
              then D 500000 * dbl 5 100 + (D 650000 - D 500000) * dbl 10 100
            else D 650000 * dbl 20 100) \<le> D 50000"
    by code_simp
  from down_payment_minimum [OF c p] v show ?thesis
    by blast
qed

section \<open>Credit threshold\<close>

lemma check_credit_threshold_try_success:
  assumes "get_int E event ''credit_score'' (VInt 0) = Inr cs"
    and "get_float E event ''down_payment_percentage'' (VInt 5) = Inr pct"
    and "cs \<noteq> 0"
  shows "check_credit_threshold_try E event = Inr (Success
     \<lparr> credit_score = cs,
       category =
         (if cs \<ge> 800 then ''Excellent'' else if cs \<ge> 720 then ''Very Good''
          else if cs \<ge> 650 then ''Good'' else if cs \<ge> 600 then ''Fair'' else ''Poor''),
       min_required_score = (if D 20 \<le> pct then 650 else 600),
       mortgage_type = (if D 20 \<le> pct then ''Conventional'' else ''CMHC Insured''),
       approved = (cs \<ge> (if D 20 \<le> pct then 650 else 600)),
       points_above_minimum = cs - (if D 20 \<le> pct then 650 else 600),
       credit_recommendation =
         (if cs \<ge> (if D 20 \<le> pct then 650 else 600)
          then [Lit ''Approved - Credit score meets requirements'']
          else [Lit ''Denied - Credit score too low (need '',
                FmtInt (if D 20 \<le> pct then 650 else 600),
                Lit ''+ for '',
                Lit (if D 20 \<le> pct then ''Conventional'' else ''CMHC Insured''),
                Lit '' mortgage)'']) \<rparr>)"
proof (cases "D 20 \<le> pct")
  case True
  show ?thesis
    unfolding check_credit_threshold_try_def assms(1,2) bindE_Inr Let_def
    using assms(3) True by (simp only: if_False if_True case_prod_conv simp_thms)
next
  case False
  show ?thesis
    unfolding check_credit_threshold_try_def assms(1,2) bindE_Inr Let_def
    using assms(3) False by (simp only: if_False if_True case_prod_conv simp_thms)
qed

text \<open>
  C8. For a credit-check request whose arguments convert to numbers and whose
  \<^verbatim>\<open>credit_score\<close> is not 0: the minimum score is 650 and the mortgage type
  "Conventional" when \<^verbatim>\<open>down_payment_percentage\<close> is at least 20, and 600 with
  "CMHC Insured" otherwise; \<^verbatim>\<open>approved\<close> holds exactly when the score reaches the
  minimum; the category is the highest band the score reaches (800 Excellent, 720 Very
  Good, 650 Good, 600 Fair, else Poor). A score of 680 with 5 percent down gives
  "CMHC Insured", 600, approved, "Good".
\<close>

theorem credit_threshold:
  assumes "get_int E event ''credit_score'' (VInt 0) = Inr cs"
    and "get_float E event ''down_payment_percentage'' (VInt 5) = Inr pct"
    and "cs \<noteq> 0"
  shows "\<exists>r. check_credit_threshold E event = Success r
      \<and> (D 20 \<le> pct \<longrightarrow> min_required_score r = 650 \<and> mortgage_type r = ''Conventional'')
      \<and> (\<not> D 20 \<le> pct \<longrightarrow> min_required_score r = 600 \<and> mortgage_type r = ''CMHC Insured'')
      \<and> (approved r \<longleftrightarrow> cs \<ge> min_required_score r)
      \<and> category r =
           (if cs \<ge> 800 then ''Excellent'' else if cs \<ge> 720 then ''Very Good''
            else if cs \<ge> 650 then ''Good'' else if cs \<ge> 600 then ''Fair'' else ''Poor'')
      \<and> (cs = 680 \<and> pct = D 5 \<longrightarrow>
           mortgage_type r = ''CMHC Insured'' \<and> min_required_score r = 600
           \<and> approved r \<and> category r = ''Good'')"
proof -
  obtain r where r: "check_credit_threshold_try E event = Inr (Success r)"
    and cat: "category r =
         (if cs \<ge> 800 then ''Excellent'' else if cs \<ge> 720 then ''Very Good''
          else if cs \<ge> 650 then ''Good'' else if cs \<ge> 600 then ''Fair'' else ''Poor'')"
    and ms: "min_required_score r = (if D 20 \<le> pct then 650 else 600)"
    and mt: "mortgage_type r = (if D 20 \<le> pct then ''Conventional'' else ''CMHC Insured'')"
    and ap: "approved r = (cs \<ge> (if D 20 \<le> pct then 650 else 600))"
    using check_credit_threshold_try_success [OF assms]
    by (simp only: credit_result.simps)
  have res: "check_credit_threshold E event = Success r"
    unfolding check_credit_threshold_def r by (simp only: sum.case)
  have conv: "D 20 \<le> pct \<longrightarrow> min_required_score r = 650 \<and> mortgage_type r = ''Conventional''"
    unfolding ms mt by simp
  have ins: "\<not> D 20 \<le> pct \<longrightarrow> min_required_score r = 600 \<and> mortgage_type r = ''CMHC Insured''"
    unfolding ms mt by simp
  have appr: "approved r \<longleftrightarrow> cs \<ge> min_required_score r"
    unfolding ms ap by simp
  have five: "\<not> D 20 \<le> D 5"
    by code_simp
  have example: "cs = 680 \<and> pct = D 5 \<longrightarrow>
           mortgage_type r = ''CMHC Insured'' \<and> min_required_score r = 600
           \<and> approved r \<and> category r = ''Good''"
    unfolding ms mt ap cat using five by simp
  from res conv ins appr cat example show ?thesis
    by blast
qed

theorem credit_threshold_witness:
  "\<exists>r. check_credit_threshold sample_env
          (VDict [(''credit_score'', VInt 680), (''down_payment_percentage'', VInt 5)])
          = Success r
      \<and> mortgage_type r = ''CMHC Insured'' \<and> min_required_score r = 600
      \<and> approved r \<and> category r = ''Good''"
proof -
  let ?ev = "VDict [(''credit_score'', VInt 680), (''down_payment_percentage'', VInt 5)]"
  have c: "get_int sample_env ?ev ''credit_score'' (VInt 0) = Inr 680"
    "get_float sample_env ?ev ''down_payment_percentage'' (VInt 5) = Inr (D 5)"
    by code_simp+
  from credit_threshold [OF c] show ?thesis
    by auto
qed

section \<open>Dispatcher: unknown names and calculator faults\<close>

lemma lambda_handler_resolved:
  assumes "resolve_tool_name context = Inr resolved"
  shows "lambda_handler_try E event context =
       (case resolved of
         None \<Rightarrow> Inr (response 400 (BError ''Missing tool name''))
       | Some tool_name \<Rightarrow>
           if tool_name = [] then Inr (response 400 (BError ''Missing tool name''))
           else if tool_name = ''calculate_gds_tds'' then
             Inr (response 200 (BResult (RGdsTds (calculate_gds_tds E event))))
           else if tool_name = ''osfi_b20_stress_test'' then
             Inr (response 200 (BResult (RStress (osfi_b20_stress_test E event))))
           else if tool_name = ''calculate_down_payment'' then
             Inr (response 200 (BResult (RDownPayment (calculate_down_payment E event))))
           else if tool_name = ''check_credit_threshold'' then
             Inr (response 200 (BResult (RCredit (check_credit_threshold E event))))
           else if tool_name = ''placeholder_tool'' then
             bindE (placeholder_tool event) (\<lambda>result.
               Inr (response 200 (BResult (RPlaceholder result))))
           else Inr (response 400 (BError (unknown_tool tool_name))))"
  unfolding lambda_handler_try_def assms bindE_Inr ..

text \<open>
  C5, as the code has it. The handler knows five names: the four calculators and
  \<^verbatim>\<open>placeholder_tool\<close>. For every resolved tool name outside these five, it returns
  the 400 envelope whose error is \<^verbatim>\<open>Missing tool name\<close> when no name was resolved or
  the name is empty, and \<^verbatim>\<open>Unknown tool '<name>'\<close> otherwise; the envelope holds
  no calculator result.
\<close>

theorem dispatcher_rejects_unknown_names:
  assumes "resolve_tool_name context = Inr resolved"
    and "resolved \<notin> {Some ''calculate_gds_tds'', Some ''osfi_b20_stress_test'',
                      Some ''calculate_down_payment'', Some ''check_credit_threshold'',
                      Some ''placeholder_tool''}"
  shows "lambda_handler E event context =
           response 400 (BError
             (case resolved of
                None \<Rightarrow> ''Missing tool name''
              | Some tool_name \<Rightarrow>
                  if tool_name = [] then ''Missing tool name'' else unknown_tool tool_name))"
proof (cases resolved)
  case None
  show ?thesis
    unfolding lambda_handler_def lambda_handler_resolved [OF assms(1)] None
    by (simp only: option.case sum.case)
next
  case (Some tool_name)
  from assms(2) have ne: "tool_name \<noteq> ''calculate_gds_tds''"
    "tool_name \<noteq> ''osfi_b20_stress_test''" "tool_name \<noteq> ''calculate_down_payment''"
    "tool_name \<noteq> ''check_credit_threshold''" "tool_name \<noteq> ''placeholder_tool''"
    unfolding Some by simp_all
  show ?thesis
    unfolding lambda_handler_def lambda_handler_resolved [OF assms(1)] Some option.case
    using ne by (cases "tool_name = []") (simp_all only: if_True if_False sum.case simp_thms)
qed


theorem dispatcher_rejects_unknown_names_witness:
  "lambda_handler sample_env (VDict [])
     \<lparr> client_context = Some
         \<lparr> custom = VDict [(''bedrockAgentCoreToolName'', VStr ''LambdaTarget___foo'')] \<rparr> \<rparr>
   = response 400 (BError (unknown_tool ''foo''))"
  using dispatcher_rejects_unknown_names [of
     "\<lparr> client_context = Some
         \<lparr> custom = VDict [(''bedrockAgentCoreToolName'', VStr ''LambdaTarget___foo'')] \<rparr> \<rparr>"
     "Some ''foo''" sample_env "VDict []"]
  by (simp add: resolve_tool_name_def py_get_def py_truthy_def py_contains_def py_split_snd_def)

text \<open>
  C5 as stated fails at the name \<^verbatim>\<open>placeholder_tool\<close>: it is outside the four
  calculator names, and the handler answers it with status 200.
\<close>

theorem dispatcher_placeholder_counterexample:
  "resolve_tool_name
     \<lparr> client_context = Some
         \<lparr> custom = VDict [(''bedrockAgentCoreToolName'',
                             VStr ''LambdaTarget___placeholder_tool'')] \<rparr> \<rparr>
     = Inr (Some ''placeholder_tool'')
   \<and> ''placeholder_tool'' \<notin> {''calculate_gds_tds'', ''osfi_b20_stress_test'',
                               ''calculate_down_payment'', ''check_credit_threshold''}
   \<and> statusCode (lambda_handler sample_env (VDict [])
         \<lparr> client_context = Some
            \<lparr> custom = VDict [(''bedrockAgentCoreToolName'',
                                VStr ''LambdaTarget___placeholder_tool'')] \<rparr> \<rparr>) = 200"
  by (simp add: resolve_tool_name_def py_get_def py_truthy_def py_contains_def py_split_snd_def
      lambda_handler_def lambda_handler_try_def placeholder_tool_def response_def)

lemma calculator_faults_caught:
  "calculate_gds_tds_try E event = Inl e \<Longrightarrow>
     calculate_gds_tds E event = ErrorResult [Lit ''GDS/TDS calculation failed: '', FmtExn e]"
  "osfi_b20_stress_test_try E event = Inl e \<Longrightarrow>
     osfi_b20_stress_test E event = ErrorResult [Lit ''Stress test calculation failed: '', FmtExn e]"
  "calculate_down_payment_try E event = Inl e \<Longrightarrow>
     calculate_down_payment E event =
       ErrorResult [Lit ''Down payment calculation failed: '', FmtExn e]"
  "check_credit_threshold_try E event = Inl e \<Longrightarrow>
     check_credit_threshold E event = ErrorResult [Lit ''Credit check failed: '', FmtExn e]"
  by (simp_all add: calculate_gds_tds_def osfi_b20_stress_test_def calculate_down_payment_def
      check_credit_threshold_def)

text \<open>
  C6. For a request whose resolved tool name is one of the four calculators, the handler
  returns status 200 with the calculator's return value as \<^verbatim>\<open>result\<close>, whatever the
  event is; and whatever is raised inside a calculator's \<^verbatim>\<open>try\<close> block (a value
  that does not convert, a division by zero, an event that is not a dict) comes back
  from that calculator as an error result with the one message
  \<^verbatim>\<open>"<tool> failed: <exception>"\<close>. So no fault inside a calculator gives status 500.
  (Serialising the body with \<^verbatim>\<open>json.dumps\<close> is outside the model.)
\<close>

theorem calculator_faults_never_500:
  assumes "resolve_tool_name context = Inr (Some tool_name)"
    and "tool_name \<in> {''calculate_gds_tds'', ''osfi_b20_stress_test'',
                       ''calculate_down_payment'', ''check_credit_threshold''}"
  shows "statusCode (lambda_handler E event context) = 200
      \<and> body (lambda_handler E event context) =
          BResult
            (if tool_name = ''calculate_gds_tds'' then RGdsTds (calculate_gds_tds E event)
             else if tool_name = ''osfi_b20_stress_test''
               then RStress (osfi_b20_stress_test E event)
             else if tool_name = ''calculate_down_payment''
               then RDownPayment (calculate_down_payment E event)
             else RCredit (check_credit_threshold E event))
      \<and> (\<forall>e. calculate_gds_tds_try E event = Inl e \<longrightarrow>
             calculate_gds_tds E event =
               ErrorResult [Lit ''GDS/TDS calculation failed: '', FmtExn e])
      \<and> (\<forall>e. osfi_b20_stress_test_try E event = Inl e \<longrightarrow>
             osfi_b20_stress_test E event =
               ErrorResult [Lit ''Stress test calculation failed: '', FmtExn e])
      \<and> (\<forall>e. calculate_down_payment_try E event = Inl e \<longrightarrow>
             calculate_down_payment E event =
               ErrorResult [Lit ''Down payment calculation failed: '', FmtExn e])
      \<and> (\<forall>e. check_credit_threshold_try E event = Inl e \<longrightarrow>
             check_credit_threshold E event =
               ErrorResult [Lit ''Credit check failed: '', FmtExn e])"
proof -
  have ne: "tool_name \<noteq> []"
    using assms(2) by auto
  have h: "lambda_handler E event context =
      response 200 (BResult
            (if tool_name = ''calculate_gds_tds'' then RGdsTds (calculate_gds_tds E event)
             else if tool_name = ''osfi_b20_stress_test''
               then RStress (osfi_b20_stress_test E event)
             else if tool_name = ''calculate_down_payment''
               then RDownPayment (calculate_down_payment E event)
             else RCredit (check_credit_threshold E event)))"
    unfolding lambda_handler_def lambda_handler_resolved [OF assms(1)] option.case
    using ne assms(2) by auto
  show ?thesis
    unfolding h using calculator_faults_caught [of E event]
    by (simp add: response_def)
qed

theorem calculator_faults_never_500_witness:
  "lambda_handler sample_env (VDict [(''gross_annual_income'', VStr ''abc'')])
     \<lparr> client_context = Some
         \<lparr> custom = VDict [(''bedrockAgentCoreToolName'',
                             VStr ''LambdaTarget___calculate_gds_tds'')] \<rparr> \<rparr>
   = \<lparr> statusCode = 200,
       body = BResult (RGdsTds
                (ErrorResult [Lit ''GDS/TDS calculation failed: '', FmtExn ValueError])) \<rparr>"
proof -
  have r: "resolve_tool_name
     \<lparr> client_context = Some
         \<lparr> custom = VDict [(''bedrockAgentCoreToolName'',
                             VStr ''LambdaTarget___calculate_gds_tds'')] \<rparr> \<rparr>
     = Inr (Some ''calculate_gds_tds'')"
    by (simp add: resolve_tool_name_def py_get_def py_truthy_def py_contains_def
        py_split_snd_def)
  have t: "calculate_gds_tds_try sample_env (VDict [(''gross_annual_income'', VStr ''abc'')])
             = Inl ValueError"
    by (simp add: calculate_gds_tds_try_def get_float_def py_get_def py_float_def
        sample_env_def)
  from calculator_faults_never_500 [OF r, of sample_env
         "VDict [(''gross_annual_income'', VStr ''abc'')]"] t
  show ?thesis
    by (simp add: envelope.equality)
qed

section \<open>Division by zero and non-finite results\<close>

lemma zero_income_zero_monthly:
  fixes gi :: double
  assumes "fl_eq gi 0"
  shows "fl_eq (gi / D 12) 0"
proof -
  have d12: "D 12 = Finite False 3 2"
    by code_simp
  from assms obtain s e where gi: "gi = Finite s 0 e"
    by (cases gi) (auto simp: fl_eq_zero_iff)
  show ?thesis
    unfolding gi d12 by (simp add: divide_double_def fl_eq_zero_iff round_scaled_zero)
qed







end
